theory Spec2Isabelle
  imports Main "HOL-Library.Sublist"
begin

section \<open>JavaScript values and string primitives used by the panel script\<close>

text \<open>
  The overlay panel is one browser script (the immediately invoked function of
  \<^verbatim>\<open>src/unnamed/part_000\<close>); \<^verbatim>\<open>src/code/weditor_autosend.js\<close> is the one-shot variant
  hosted by the bridge. Strings are \<^typ>\<open>string\<close>; the characters of the model are the ASCII
  ones, which is what the rectangle pattern, the action names and the numeric fields are
  made of. Numbers are \<^typ>\<open>int\<close>: every number the script computes comes out of
  \<^verbatim>\<open>parseInt(_, 10)\<close> or out of a JSON document, and fractions and the rounding of
  integers beyond \<open>2^53\<close> are left out of the model.
\<close>

datatype jsval =
    JUndef
  | JNull
  | JBool bool
  | JNum int
  | JStr string
  | JArr "jsval list"
  | JObj "(string \<times> jsval) list"

text \<open>Truthiness, as \<^verbatim>\<open>if (v)\<close>, \<^verbatim>\<open>a && b\<close> and \<^verbatim>\<open>a || b\<close> test it.\<close>

fun truthy :: "jsval \<Rightarrow> bool" where
  "truthy JUndef = False"
| "truthy JNull = False"
| "truthy (JBool b) = b"
| "truthy (JNum n) = (n \<noteq> 0)"
| "truthy (JStr s) = (s \<noteq> [])"
| "truthy (JArr _) = True"
| "truthy (JObj _) = True"

text \<open>\<^verbatim>\<open>a || b\<close> on values.\<close>

definition js_or :: "jsval \<Rightarrow> jsval \<Rightarrow> jsval" where
  "js_or a b = (if truthy a then a else b)"

text \<open>
  Property read \<^verbatim>\<open>v.k\<close> for a key that no prototype defines (\<open>ok\<close>, \<open>error\<close>, \<open>x\<close>,
  \<open>bounds\<close>, ...): an own property of an object, \<open>undefined\<close> on every other value.
  The script guards each read so that it is never made on \<open>undefined\<close> or \<open>null\<close>.
  An object is the list of its properties in insertion order, each key once.
\<close>

fun js_get :: "jsval \<Rightarrow> string \<Rightarrow> jsval" where
  "js_get (JObj kvs) k = (case map_of kvs k of Some v \<Rightarrow> v | None \<Rightarrow> JUndef)"
| "js_get _ k = JUndef"

text \<open>Optional chaining \<^verbatim>\<open>v?.k\<close>.\<close>

fun js_get_opt :: "jsval \<Rightarrow> string \<Rightarrow> jsval" where
  "js_get_opt JUndef k = JUndef"
| "js_get_opt JNull k = JUndef"
| "js_get_opt v k = js_get v k"

text \<open>Assignment \<^verbatim>\<open>obj.k = v\<close>: an existing key keeps its place, a new key goes last.\<close>

fun set_field :: "string \<Rightarrow> jsval \<Rightarrow> (string \<times> jsval) list \<Rightarrow> (string \<times> jsval) list" where
  "set_field k v [] = [(k, v)]"
| "set_field k v ((k', v') # kvs) =
     (if k' = k then (k, v) # kvs else (k', v') # set_field k v kvs)"

text \<open>\<^verbatim>\<open>Object.assign({}, a, b)\<close> on two plain objects.\<close>

definition object_assign :: "(string \<times> jsval) list \<Rightarrow> (string \<times> jsval) list \<Rightarrow> (string \<times> jsval) list" where
  "object_assign a b = foldl (\<lambda>acc (k, v). set_field k v acc) (foldl (\<lambda>acc (k, v). set_field k v acc) [] a) b"

subsection \<open>Numbers and text\<close>

definition isDigit :: "char \<Rightarrow> bool" where
  "isDigit c = (c \<in> set ''0123456789'')"

text \<open>The value of a decimal digit is its place in \<open>0123456789\<close>.\<close>

definition digit_val :: "char \<Rightarrow> nat" where
  "digit_val c = length (takeWhile (\<lambda>d. d \<noteq> c) ''0123456789'')"

definition digit_char :: "nat \<Rightarrow> char" where
  "digit_char d = ''0123456789'' ! (d mod 10)"

text \<open>White space that \<^verbatim>\<open>trim\<close> and \<^verbatim>\<open>parseInt\<close> skip (the ASCII part of it).\<close>

definition isWhite :: "char \<Rightarrow> bool" where
  "isWhite c = (c \<in> {CHR '' '', CHR 0x09, CHR 0x0A, CHR 0x0B, CHR 0x0C, CHR 0x0D})"

definition trim :: "string \<Rightarrow> string" where
  "trim s = rev (dropWhile isWhite (rev (dropWhile isWhite s)))"

text \<open>\<^verbatim>\<open>toLowerCase\<close> on the letters A to Z.\<close>

definition lower_char :: "char \<Rightarrow> char" where
  "lower_char c =
     (case map_of (zip ''ABCDEFGHIJKLMNOPQRSTUVWXYZ'' ''abcdefghijklmnopqrstuvwxyz'') c of
        Some l \<Rightarrow> l | None \<Rightarrow> c)"

definition toLowerCase :: "string \<Rightarrow> string" where
  "toLowerCase s = map lower_char s"

text \<open>
  \<^verbatim>\<open>parseInt(s, 10)\<close>: leading white space, an optional sign, then the longest run of
  decimal digits; \<open>None\<close> is \<open>NaN\<close> (no digit there).
\<close>

definition parseInt :: "string \<Rightarrow> int option" where
  "parseInt s =
     (let s1 = dropWhile isWhite s;
          neg = (case s1 of c # _ \<Rightarrow> c = CHR ''-'' | [] \<Rightarrow> False);
          s2 = (case s1 of c # r \<Rightarrow> (if c = CHR ''-'' \<or> c = CHR ''+'' then r else s1) | [] \<Rightarrow> s1);
          ds = takeWhile isDigit s2;
          n = int (foldl (\<lambda>a c. 10 * a + digit_val c) 0 ds)
      in if ds = [] then None else Some (if neg then - n else n))"

text \<open>\<^verbatim>\<open>s || d\<close> on strings and \<^verbatim>\<open>parseInt(..) || d\<close> on numbers (\<open>NaN\<close> and \<open>0\<close> are falsy).\<close>

definition str_or :: "string \<Rightarrow> string \<Rightarrow> string" where
  "str_or s d = (if s = [] then d else s)"

definition num_or :: "int option \<Rightarrow> int \<Rightarrow> int" where
  "num_or r d = (case r of None \<Rightarrow> d | Some n \<Rightarrow> (if n = 0 then d else n))"

text \<open>Decimal text of an integer, as \<^verbatim>\<open>String(n)\<close> and a template literal print it.\<close>

fun nat_str :: "nat \<Rightarrow> string" where
  "nat_str n = (if n < 10 then [digit_char n] else nat_str (n div 10) @ [digit_char n])"

definition int_str :: "int \<Rightarrow> string" where
  "int_str i = (if i < 0 then CHR ''-'' # nat_str (nat (- i)) else nat_str (nat i))"

fun join_comma :: "string list \<Rightarrow> string" where
  "join_comma [] = []"
| "join_comma [s] = s"
| "join_comma (s # t # ss) = s @ '','' @ join_comma (t # ss)"

text \<open>
  \<^verbatim>\<open>String(v)\<close>, which is also what \<^verbatim>\<open>`${v}`\<close> prints. An array joins its elements
  with commas, printing \<open>null\<close> and \<open>undefined\<close> elements as nothing.
\<close>

fun toString :: "jsval \<Rightarrow> string" where
  "toString JUndef = ''undefined''"
| "toString JNull = ''null''"
| "toString (JBool b) = (if b then ''true'' else ''false'')"
| "toString (JNum n) = int_str n"
| "toString (JStr s) = s"
| "toString (JArr vs) =
     join_comma (map (\<lambda>v. if v = JUndef \<or> v = JNull then [] else toString v) vs)"
| "toString (JObj _) = ''[object Object]''"

section \<open>The rectangle pattern\<close>

text \<open>
  \<^verbatim>\<open>const BOUNDS_RE = /\[(\d+),(\d+)\]\[(\d+),(\d+)\]/;\<close> (line 3). The pattern has no
  anchors and no flags. \<open>match_here\<close> tries it at the start of a text: every \<^verbatim>\<open>\d+\<close> is
  followed by a character that is not a digit, so the longest run of digits is the only
  candidate. \<open>BOUNDS_RE_exec\<close> is \<^verbatim>\<open>s.match(BOUNDS_RE)\<close>: the leftmost match, whose text
  is \<^verbatim>\<open>m[0]\<close>; \<open>BOUNDS_RE_test\<close> is \<^verbatim>\<open>BOUNDS_RE.test(s)\<close>.
\<close>

definition digits_then :: "char \<Rightarrow> string \<Rightarrow> (string \<times> string) option" where
  "digits_then sep s =
     (let ds = takeWhile isDigit s in
      if ds = [] then None
      else (case dropWhile isDigit s of
              c # r \<Rightarrow> (if c = sep then Some (ds, r) else None)
            | [] \<Rightarrow> None))"

definition match_here :: "string \<Rightarrow> string option" where
  "match_here s =
     (case s of
        c0 # s0 \<Rightarrow>
          if c0 \<noteq> CHR ''['' then None else
          (case digits_then CHR '','' s0 of None \<Rightarrow> None | Some (a, s1) \<Rightarrow>
          (case digits_then CHR '']'' s1 of None \<Rightarrow> None | Some (b, s2) \<Rightarrow>
          (case s2 of [] \<Rightarrow> None | c3 # s3 \<Rightarrow>
          if c3 \<noteq> CHR ''['' then None else
          (case digits_then CHR '','' s3 of None \<Rightarrow> None | Some (c, s4) \<Rightarrow>
          (case digits_then CHR '']'' s4 of None \<Rightarrow> None | Some (d, s5) \<Rightarrow>
             Some (''['' @ a @ '','' @ b @ '']['' @ c @ '','' @ d @ '']''))))))
      | [] \<Rightarrow> None)"

fun BOUNDS_RE_exec :: "string \<Rightarrow> string option" where
  "BOUNDS_RE_exec [] = None"
| "BOUNDS_RE_exec (c # cs) =
     (case match_here (c # cs) of Some m \<Rightarrow> Some m | None \<Rightarrow> BOUNDS_RE_exec cs)"

definition BOUNDS_RE_test :: "string \<Rightarrow> bool" where
  "BOUNDS_RE_test s = (BOUNDS_RE_exec s \<noteq> None)"

text \<open>
  The form the specification names: \<open>[<uint>,<uint>][<uint>,<uint>]\<close>, each \<open><uint>\<close> a
  non-empty run of decimal digits, and nothing else in the text.
\<close>

definition uint_text :: "string \<Rightarrow> bool" where
  "uint_text a = (a \<noteq> [] \<and> list_all isDigit a)"

definition rect_form :: "string \<Rightarrow> bool" where
  "rect_form s = (\<exists>a b c d. uint_text a \<and> uint_text b \<and> uint_text c \<and> uint_text d \<and>
      s = ''['' @ a @ '','' @ b @ '']['' @ c @ '','' @ d @ '']'')"

section \<open>The host page\<close>

text \<open>
  The script reads the host page through a few DOM queries. The document is a tree of
  elements; an element is referred to by its position (the child indices from the root),
  so that identity \<^verbatim>\<open>t === rbtn\<close> and \<^verbatim>\<open>a.contains(b)\<close> are comparisons of positions.
  \<open>innerText\<close> is the rendered text of the element, as the browser reports it.
\<close>

datatype element =
  Element (tagName: string) (classList: "string list") (attrNames: "string list")
    (innerText: string) (childNodes: "element list")

type_synonym node_ref = "nat list"

primrec node_at :: "element \<Rightarrow> node_ref \<Rightarrow> element option" where
  "node_at e [] = Some e"
| "node_at e (i # p) = (if i < length (childNodes e) then node_at (childNodes e ! i) p else None)"

text \<open>Every element of the tree, in document order.\<close>

primrec refs_of :: "element \<Rightarrow> node_ref list"
  and refs_of_children :: "nat \<Rightarrow> element list \<Rightarrow> node_ref list" where
  "refs_of (Element t cs as txt kids) = [] # refs_of_children 0 kids"
| "refs_of_children i [] = []"
| "refs_of_children i (k # ks) = map ((#) i) (refs_of k) @ refs_of_children (Suc i) ks"

text \<open>\<^verbatim>\<open>a.contains(b)\<close>: \<open>b\<close> is \<open>a\<close> or a descendant of it.\<close>

definition contains :: "node_ref \<Rightarrow> node_ref \<Rightarrow> bool" where
  "contains a b = prefix a b"

text \<open>
  A selector is a test on an element and its place in the document.
  \<open>querySelector\<close> is the first element in document order that passes,
  \<open>querySelectorAll\<close> all of them in that order, and \<open>closest\<close> the nearest of the
  element itself and its ancestors.
\<close>

type_synonym selector = "element \<Rightarrow> node_ref \<Rightarrow> bool"

definition matches :: "selector \<Rightarrow> element \<Rightarrow> node_ref \<Rightarrow> bool" where
  "matches sel doc r = (case node_at doc r of Some e \<Rightarrow> sel doc r | None \<Rightarrow> False)"

definition querySelector :: "selector \<Rightarrow> element \<Rightarrow> node_ref option" where
  "querySelector sel doc = find (matches sel doc) (refs_of doc)"

definition querySelectorAll :: "selector \<Rightarrow> element \<Rightarrow> node_ref list" where
  "querySelectorAll sel doc = filter (matches sel doc) (refs_of doc)"

definition closest :: "selector \<Rightarrow> element \<Rightarrow> node_ref \<Rightarrow> node_ref option" where
  "closest sel doc r = find (matches sel doc) (rev (prefixes r))"

definition has_tag :: "string \<Rightarrow> element \<Rightarrow> node_ref \<Rightarrow> bool" where
  "has_tag t doc r = (case node_at doc r of Some e \<Rightarrow> tagName e = t | None \<Rightarrow> False)"

definition has_class :: "string \<Rightarrow> element \<Rightarrow> node_ref \<Rightarrow> bool" where
  "has_class c doc r = (case node_at doc r of Some e \<Rightarrow> c \<in> set (classList e) | None \<Rightarrow> False)"

definition has_attr :: "string \<Rightarrow> element \<Rightarrow> node_ref \<Rightarrow> bool" where
  "has_attr a doc r = (case node_at doc r of Some e \<Rightarrow> a \<in> set (attrNames e) | None \<Rightarrow> False)"

text \<open>\<^verbatim>\<open>[class*="x"]\<close>: the class attribute has \<open>x\<close> somewhere in it. \<open>x\<close> has no blank here,
  so it lies within one class name.\<close>

fun str_includes :: "string \<Rightarrow> string \<Rightarrow> bool" where
  "str_includes [] x = (x = [])"
| "str_includes (c # cs) x = (prefix x (c # cs) \<or> str_includes cs x)"

definition class_includes :: "string \<Rightarrow> element \<Rightarrow> node_ref \<Rightarrow> bool" where
  "class_includes x doc r =
     (case node_at doc r of Some e \<Rightarrow> list_ex (\<lambda>c. str_includes c x) (classList e) | None \<Rightarrow> False)"

text \<open>\<^verbatim>\<open>button .p-button-icon.pi.pi-refresh\<close>: the three classes, below a button.\<close>

definition sel_refresh_icon :: selector where
  "sel_refresh_icon doc r =
     (has_class ''p-button-icon'' doc r \<and> has_class ''pi'' doc r \<and> has_class ''pi-refresh'' doc r \<and>
      list_ex (has_tag ''button'' doc) (butlast (prefixes r)))"

text \<open>\<^verbatim>\<open>.pi.pi-refresh, [class*="pi-refresh"]\<close>.\<close>

definition sel_any_refresh :: selector where
  "sel_any_refresh doc r =
     ((has_class ''pi'' doc r \<and> has_class ''pi-refresh'' doc r) \<or> class_includes ''pi-refresh'' doc r)"

text \<open>\<^verbatim>\<open>findRefreshButton\<close> (lines 256-266; the same function is lines 9-15 of
  \<^verbatim>\<open>weditor_autosend.js\<close>).\<close>

definition findRefreshButton :: "element \<Rightarrow> node_ref option" where
  "findRefreshButton doc =
     (case querySelector sel_refresh_icon doc of
        Some icon \<Rightarrow> closest (has_tag ''button'') doc icon
      | None \<Rightarrow>
          (case querySelector sel_any_refresh doc of
             Some any \<Rightarrow> closest (has_tag ''button'') doc any
           | None \<Rightarrow> None))"

text \<open>
  The page as the script sees it: the document, the place of the overlay panel in it
  (\<^verbatim>\<open>document.body.appendChild(panel)\<close>), and the two globals \<^verbatim>\<open>getSelectedNode\<close> reads;
  \<open>store_selectedNode\<close> is the value of
  \<^verbatim>\<open>window.store && window.store.state && window.store.state.selectedNode\<close>.
\<close>

record page =
  document :: element
  panel_ref :: node_ref
  window_selectedNode :: jsval
  store_selectedNode :: jsval

definition js_and :: "jsval \<Rightarrow> jsval \<Rightarrow> jsval" where
  "js_and a b = (if truthy a then b else a)"

definition getSelectedNode :: "page \<Rightarrow> jsval" where
  "getSelectedNode pg = js_or (js_or (window_selectedNode pg) (store_selectedNode pg)) JNull"

text \<open>\<^verbatim>\<open>table, .el-table, .attributes, .attr, .props, .panel, .right, .detail, .inspector\<close>.\<close>

definition sel_candidates :: selector where
  "sel_candidates doc r =
     (has_tag ''table'' doc r \<or>
      list_ex (\<lambda>c. has_class c doc r)
        [''el-table'', ''attributes'', ''attr'', ''props'', ''panel'', ''right'', ''detail'', ''inspector''])"

fun first_match :: "string list \<Rightarrow> string option" where
  "first_match [] = None"
| "first_match (txt # rest) =
     (case BOUNDS_RE_exec (str_or txt []) of Some m \<Rightarrow> Some m | None \<Rightarrow> first_match rest)"

text \<open>
  \<^verbatim>\<open>extractBounds\<close> (lines 234-253); \<open>None\<close> is the \<open>undefined\<close> it returns when
  nothing matches. \<open>node_bounds\<close> is its first block (the selected node object),
  \<open>candidate_texts\<close> the \<open>innerText\<close> of the candidate regions in document order.
\<close>

definition node_bounds :: "page \<Rightarrow> string option" where
  "node_bounds pg =
     (let node = getSelectedNode pg in
      if truthy node then
        (let b1 = js_get node ''bounds'';
             b2 = js_and (js_get node ''attributes'') (js_get (js_get node ''attributes'') ''bounds'');
             b = js_or (js_or b1 b2) (JStr [])
         in case b of JStr s \<Rightarrow> (if BOUNDS_RE_test s then Some s else None) | _ \<Rightarrow> None)
      else None)"

definition candidate_texts :: "page \<Rightarrow> string list" where
  "candidate_texts pg =
     map (\<lambda>r. case node_at (document pg) r of Some e \<Rightarrow> innerText e | None \<Rightarrow> [])
       (querySelectorAll sel_candidates (document pg))"

definition extractBounds :: "page \<Rightarrow> string option" where
  "extractBounds pg =
     (case node_bounds pg of Some b \<Rightarrow> Some b | None \<Rightarrow> first_match (candidate_texts pg))"

section \<open>The click filter\<close>

record click_event =
  target :: "node_ref option"
  isTrusted :: bool

text \<open>\<^verbatim>\<open>shouldIgnoreClick\<close> (lines 96-109).\<close>

definition shouldIgnoreClick :: "page \<Rightarrow> click_event \<Rightarrow> bool" where
  "shouldIgnoreClick pg e =
     (case target e of
        None \<Rightarrow> False
      | Some t \<Rightarrow>
          if contains (panel_ref pg) t then True
          else if (case findRefreshButton (document pg) of
                     Some rbtn \<Rightarrow> t = rbtn \<or> contains rbtn t
                   | None \<Rightarrow> False) then True
          else if closest (has_attr ''data-bridge-ignore'') (document pg) t \<noteq> None
                  \<or> closest (has_class ''bridge-ignore'') (document pg) t \<noteq> None then True
          else False)"

section \<open>The panel\<close>

text \<open>
  The status line shows fixed messages, most of them Chinese text, some followed by
  values. A message is a list of pieces: a named phrase for each fixed text of the
  script, and literal text for what the script prints after it.
\<close>

datatype phrase =
    Sending              \<comment> \<open>line 304\<close>
  | MissingValidBounds   \<comment> \<open>line 328: no valid Bounds (shaped like [x1,y1][x2,y2])\<close>
  | Failed               \<comment> \<open>line 345\<close>
  | Exception            \<comment> \<open>line 349\<close>
  | BoundsNotFound       \<comment> \<open>line 367: no valid Bounds found, select a node first\<close>
  | FillValidBounds      \<comment> \<open>line 380: please fill in a valid Bounds\<close>
  | StoppedFinalShot     \<comment> \<open>line 395\<close>
  | StopFailed           \<comment> \<open>line 399\<close>
  | StopException        \<comment> \<open>line 402\<close>
  | RefreshApplied       \<comment> \<open>line 287\<close>
  | SelectorSaved        \<comment> \<open>line 294\<close>
  | Ready                \<comment> \<open>line 421\<close>

datatype piece = Phrase phrase | Lit string

text \<open>
  The state of the script: the value of every field of the panel (as the markup of lines
  15-90 names them), the check box, the status line, the style and the \<open>disabled\<close> flag
  the script sets on fields, and its two variables \<open>REFRESH_TIMES\<close> and
  \<open>REFRESH_INTERVAL\<close>. A \<open>_display\<close> field is the element's \<^verbatim>\<open>style.display\<close>
  (empty or \<open>none\<close>); for the fields \<^verbatim>\<open>showPair\<close> handles it stands for the input
  and its label, which get the same value.
\<close>

record panel =
  ep_value :: string
  act_value :: string
  dur_value :: string
  xp_value :: string
  xpsel_value :: string
  bd_value :: string
  capMode_value :: string
  midDelay_value :: string
  wait_value :: string
  text_value :: string
  dx_value :: string
  dy_value :: string
  dir_value :: string
  dist_value :: string
  auto_checked :: bool
  rt_value :: string
  ri_value :: string
  status_textContent :: "piece list"
  REFRESH_TIMES :: int
  REFRESH_INTERVAL :: int
  durLabel_display :: string
  dur_display :: string
  text_display :: string
  dx_display :: string
  dy_display :: string
  dir_display :: string
  dist_display :: string
  midDelayLabel_display :: string
  midDelay_display :: string
  waitLabel_display :: string
  wait_display :: string
  xp_disabled :: bool
  bd_disabled :: bool

definition ENDPOINT_DEFAULT :: string where
  "ENDPOINT_DEFAULT = ''http://127.0.0.1:8001/bridge/capture_tap''"

text \<open>The panel as its markup creates it (lines 1-91), before the script restores anything.\<close>

definition panel_markup :: panel where
  "panel_markup = \<lparr>
     ep_value = ENDPOINT_DEFAULT, act_value = ''short-click'', dur_value = ''600'',
     xp_value = [], xpsel_value = [], bd_value = [], capMode_value = ''post'',
     midDelay_value = ''50'', wait_value = ''400'', text_value = [], dx_value = ''0'',
     dy_value = ''0'', dir_value = ''custom'', dist_value = ''0'', auto_checked = True,
     rt_value = ''3'', ri_value = ''500'', status_textContent = [],
     REFRESH_TIMES = 1, REFRESH_INTERVAL = 500,
     durLabel_display = [], dur_display = [], text_display = [], dx_display = [],
     dy_display = [], dir_display = [], dist_display = [], midDelayLabel_display = [],
     midDelay_display = [], waitLabel_display = [], wait_display = [],
     xp_disabled = False, bd_disabled = False \<rparr>"

text \<open>Assigning \<^verbatim>\<open>select.value = v\<close>: the option with that value is selected; when there is
  none, no option is, and the value reads as the empty string.\<close>

definition select_assign :: "string list \<Rightarrow> string \<Rightarrow> string" where
  "select_assign options v = (if v \<in> set options then v else [])"

definition capMode_options :: "string list" where
  "capMode_options = [''mid'', ''post'']"

definition display_of :: "bool \<Rightarrow> string" where
  "display_of show = (if show then [] else ''none'')"

text \<open>\<^verbatim>\<open>updateExtraFields\<close> (lines 181-206).\<close>

definition updateExtraFields :: "panel \<Rightarrow> panel" where
  "updateExtraFields st =
     (let act = toLowerCase (str_or (act_value st) ''tap'');
          showDur = (act = ''long-click'' \<or> act = ''swipe'');
          needNode = (act \<noteq> ''back'')
      in st\<lparr> text_display := display_of (act = ''input''),
              dx_display := display_of (act \<noteq> ''input'' \<and> act = ''swipe''),
              dy_display := display_of (act \<noteq> ''input'' \<and> act = ''swipe''),
              dir_display := display_of (act \<noteq> ''input'' \<and> act = ''swipe''),
              dist_display := display_of (act \<noteq> ''input'' \<and> act = ''swipe''),
              durLabel_display := display_of showDur,
              dur_display := display_of showDur,
              xp_disabled := \<not> needNode,
              bd_disabled := \<not> needNode \<rparr>)"

text \<open>\<^verbatim>\<open>updateCaptureUI\<close> (lines 212-219).\<close>

definition updateCaptureUI :: "panel \<Rightarrow> panel" where
  "updateCaptureUI st =
     (let mode = str_or (capMode_value st) ''post'';
          isMid = (mode = ''mid'')
      in st\<lparr> midDelayLabel_display := (if isMid then [] else ''none''),
              midDelay_display := (if isMid then [] else ''none''),
              waitLabel_display := (if isMid then ''none'' else []),
              wait_display := (if isMid then ''none'' else []) \<rparr>)"

section \<open>The configuration store\<close>

text \<open>
  The item \<^verbatim>\<open>UIA_BRIDGE_CFG\<close> of \<^verbatim>\<open>localStorage\<close>. \<open>None\<close>: there is no item (or it is
  the empty string, which \<^verbatim>\<open>|| '{}'\<close> treats alike). \<open>Some (Json v)\<close>: the item is JSON text
  for \<open>v\<close>. \<open>Some Malformed\<close>: text that \<^verbatim>\<open>JSON.parse\<close> rejects. An object of strings and
  integers that \<^verbatim>\<open>JSON.stringify\<close> writes is read back by \<^verbatim>\<open>JSON.parse\<close> as the same
  object, so the item is kept as the value it encodes.
\<close>

datatype item = Json jsval | Malformed

type_synonym storage = "item option"

text \<open>\<^verbatim>\<open>JSON.parse(localStorage.getItem('UIA_BRIDGE_CFG') || '{}')\<close>; \<open>None\<close> is the
  exception.\<close>

definition parse_cfg :: "storage \<Rightarrow> jsval option" where
  "parse_cfg sto = (case sto of None \<Rightarrow> Some (JObj []) | Some (Json v) \<Rightarrow> Some v | Some Malformed \<Rightarrow> None)"

text \<open>The own enumerable properties \<^verbatim>\<open>Object.assign\<close> copies from a source value.\<close>

fun indexed :: "nat \<Rightarrow> jsval list \<Rightarrow> (string \<times> jsval) list" where
  "indexed i [] = []"
| "indexed i (v # vs) = (nat_str i, v) # indexed (Suc i) vs"

fun own_properties :: "jsval \<Rightarrow> (string \<times> jsval) list" where
  "own_properties (JObj kvs) = kvs"
| "own_properties (JArr vs) = indexed 0 vs"
| "own_properties (JStr s) = indexed 0 (map (\<lambda>c. JStr [c]) s)"
| "own_properties _ = []"

text \<open>\<^verbatim>\<open>saveCfg\<close> (lines 155-161): a parse failure is swallowed and nothing is written.\<close>

definition saveCfg :: "(string \<times> jsval) list \<Rightarrow> storage \<Rightarrow> storage" where
  "saveCfg delta sto =
     (case parse_cfg sto of
        None \<Rightarrow> sto
      | Some cfg \<Rightarrow> Some (Json (JObj (object_assign (own_properties cfg) delta))))"

text \<open>
  Restoring the configuration (lines 147-153). Reading a property of \<open>null\<close> throws, and
  the \<^verbatim>\<open>catch\<close> leaves the panel as it is.
\<close>

definition restoreCfg :: "storage \<Rightarrow> panel \<Rightarrow> panel" where
  "restoreCfg sto st =
     (case parse_cfg sto of
        None \<Rightarrow> st
      | Some cfg \<Rightarrow>
          if cfg = JNull then st else
          (let st1 = (if truthy (js_get cfg ''xpathSelector'')
                      then st\<lparr>xpsel_value := toString (js_get cfg ''xpathSelector'')\<rparr> else st);
               st2 = (case js_get cfg ''capMode'' of
                        JStr s \<Rightarrow> st1\<lparr>capMode_value := select_assign capMode_options s\<rparr>
                      | _ \<Rightarrow> st1);
               st3 = (case js_get cfg ''midDelayMs'' of
                        JNum n \<Rightarrow> st2\<lparr>midDelay_value := int_str n\<rparr>
                      | _ \<Rightarrow> st2);
               st4 = (case js_get cfg ''waitAfterMs'' of
                        JNum n \<Rightarrow> st3\<lparr>wait_value := int_str n\<rparr>
                      | _ \<Rightarrow> st3)
           in st4))"

text \<open>The handlers of lines 293 and 297-299, and \<^verbatim>\<open>updateCaptureUI\<close> as the \<open>change\<close>
  listener of the capture-mode select (line 220).\<close>

definition saveSel_onclick :: "panel \<times> storage \<Rightarrow> panel \<times> storage" where
  "saveSel_onclick = (\<lambda>(st, sto).
     (st\<lparr>status_textContent := [Phrase SelectorSaved]\<rparr>,
      saveCfg [(''xpathSelector'', JStr (trim (str_or (xpsel_value st) [])))] sto))"

definition capMode_change :: "panel \<times> storage \<Rightarrow> panel \<times> storage" where
  "capMode_change = (\<lambda>(st, sto).
     (updateCaptureUI st, saveCfg [(''capMode'', JStr (str_or (capMode_value st) ''post''))] sto))"

definition wait_change :: "panel \<times> storage \<Rightarrow> panel \<times> storage" where
  "wait_change = (\<lambda>(st, sto).
     (st, saveCfg [(''waitAfterMs'', JNum (num_or (parseInt (str_or (wait_value st) ''400'')) 400))] sto))"

definition midDelay_change :: "panel \<times> storage \<Rightarrow> panel \<times> storage" where
  "midDelay_change = (\<lambda>(st, sto).
     (st, saveCfg [(''midDelayMs'',
                    JNum (max 0 (num_or (parseInt (str_or (midDelay_value st) ''50'')) 50)))] sto))"

text \<open>
  A fresh load: the script runs from its first line. It builds the panel, restores the
  stored configuration, brings the dependent fields in line (lines 209 and 221), and
  copies a rectangle it finds on the page into the Bounds field (lines 419-421). The
  XPath rows it hides (lines 164-171) have no state of their own here.
\<close>

definition load :: "storage \<Rightarrow> page \<Rightarrow> panel" where
  "load sto pg =
     (let st1 = restoreCfg sto panel_markup;
          st2 = updateExtraFields st1;
          st3 = updateCaptureUI st2;
          st4 = (case extractBounds pg of Some b \<Rightarrow> st3\<lparr>bd_value := b\<rparr> | None \<Rightarrow> st3)
      in st4\<lparr>status_textContent := [Phrase Ready]\<rparr>)"

section \<open>Building and sending the action request\<close>

text \<open>
  A request is the URL and the object that \<^verbatim>\<open>JSON.stringify(body)\<close> sends, its keys in
  the order the script sets them.
\<close>

record request =
  req_url :: string
  req_body :: "(string \<times> jsval) list"

text \<open>
  What \<^verbatim>\<open>await fetch(..)\<close> gives back: the promise is rejected with an error (whose text is
  kept), or there is a response with its status code and its body. \<open>resp_json = None\<close> is
  a body that is not JSON, which \<^verbatim>\<open>resp.json().catch(() => ({}))\<close> turns into the empty
  object. \<^verbatim>\<open>resp.ok\<close> is a status from 200 to 299.
\<close>

datatype fetch_result =
    Rejected string
  | Response (resp_status: int) (resp_json: "jsval option")

definition resp_ok :: "int \<Rightarrow> bool" where
  "resp_ok status = (200 \<le> status \<and> status \<le> 299)"

definition resp_data :: "jsval option \<Rightarrow> jsval" where
  "resp_data j = (case j of None \<Rightarrow> JObj [] | Some v \<Rightarrow> v)"

text \<open>
  \<^verbatim>\<open>postSelection\<close> (lines 302-352) runs in two parts, split at its \<^verbatim>\<open>await\<close>.
  \<open>postSelection_build\<close> is lines 303-336: it gives the panel (its status line set) and
  the request that \<^verbatim>\<open>fetch\<close> is called with, or \<open>None\<close> when the function returns at line
  329 before calling it. The argument is the \<open>bounds\<close> the caller passes; \<open>xpath\<close> and
  \<open>node\<close> are never read. The body is filled in the order of the source:
  \<open>build_base\<close> is lines 306-308, \<open>build_capture\<close> lines 310-316, \<open>build_text\<close> line
  317, \<open>build_swipe\<close> lines 318-323, and the \<open>bounds\<close> key comes last (lines 324-331).
\<close>

definition build_action :: "panel \<Rightarrow> string" where
  "build_action st = toLowerCase (str_or (act_value st) ''short-click'')"

definition build_base :: "panel \<Rightarrow> (string \<times> jsval) list" where
  "build_base st =
     [(''action'', JStr (build_action st)),
      (''durationMs'', JNum (max 1 (num_or (parseInt (str_or (dur_value st) ''600'')) 600))),
      (''tap'', JBool True)]"

definition build_capture :: "panel \<Rightarrow> (string \<times> jsval) list \<Rightarrow> (string \<times> jsval) list" where
  "build_capture st body =
     (if str_or (capMode_value st) ''post'' = ''mid''
      then set_field ''midDelayMs''
             (JNum (max 0 (num_or (parseInt (str_or (midDelay_value st) ''50'')) 50)))
             (set_field ''midCapture'' (JBool True) body)
      else set_field ''waitAfterMs''
             (JNum (max 0 (num_or (parseInt (str_or (wait_value st) ''400'')) 400))) body)"

definition build_text :: "panel \<Rightarrow> (string \<times> jsval) list \<Rightarrow> (string \<times> jsval) list" where
  "build_text st body =
     (if build_action st = ''input''
      then set_field ''text'' (JStr (str_or (text_value st) [])) body else body)"

definition build_swipe :: "panel \<Rightarrow> (string \<times> jsval) list \<Rightarrow> (string \<times> jsval) list" where
  "build_swipe st body =
     (if build_action st = ''swipe''
      then set_field ''distance'' (JNum (num_or (parseInt (str_or (dist_value st) ''0'')) 0))
          (set_field ''direction'' (JStr (toLowerCase (str_or (dir_value st) ''custom'')))
          (set_field ''dy'' (JNum (num_or (parseInt (str_or (dy_value st) ''0'')) 0))
          (set_field ''dx'' (JNum (num_or (parseInt (str_or (dx_value st) ''0'')) 0)) body)))
      else body)"

definition postSelection_build :: "panel \<Rightarrow> string \<Rightarrow> panel \<times> request option" where
  "postSelection_build st bounds =
     (let url = str_or (ep_value st) ENDPOINT_DEFAULT;
          st1 = st\<lparr>status_textContent := [Phrase Sending]\<rparr>;
          body = build_swipe st (build_text st (build_capture st (build_base st)))
      in if build_action st \<noteq> ''back'' then
           (if bounds \<noteq> [] \<and> BOUNDS_RE_test bounds
            then (st1, Some \<lparr>req_url = url, req_body = set_field ''bounds'' (JStr bounds) body\<rparr>)
            else (st1\<lparr>status_textContent := [Phrase MissingValidBounds]\<rparr>, None))
         else (st1, Some \<lparr>req_url = url, req_body = body\<rparr>))"

text \<open>
  \<open>postSelection_resume\<close> is lines 337-351, run when the fetch settles, on the panel as it
  is then. With the panel it gives the calls of \<^verbatim>\<open>scheduleRefreshClicks()\<close> it makes, each
  with the values its default parameters take (\<open>REFRESH_TIMES\<close>, \<open>REFRESH_INTERVAL\<close>).
\<close>

definition ok_text :: "jsval \<Rightarrow> string" where
  "ok_text data =
     ''OK'' @ (if truthy (js_get data ''capture_timing'')
               then ''['' @ toString (js_get data ''capture_timing'') @ '']'' else [])
     @ '' elem='' @ toString (js_get data ''elem_id'')
     @ '' center=('' @ toString (js_get_opt (js_get data ''center'') ''x'')
     @ '','' @ toString (js_get_opt (js_get data ''center'') ''y'') @ '')''"

definition postSelection_resume :: "panel \<Rightarrow> fetch_result \<Rightarrow> panel \<times> (int \<times> int) list" where
  "postSelection_resume st r =
     (case r of
        Rejected e \<Rightarrow> (st\<lparr>status_textContent := [Phrase Exception, Lit ('' '' @ e)]\<rparr>, [])
      | Response status j \<Rightarrow>
          (let data = resp_data j in
           if resp_ok status \<and> truthy data \<and> truthy (js_get data ''ok'')
           then (st\<lparr>status_textContent := [Lit (ok_text data)]\<rparr>,
                 [(REFRESH_TIMES st, REFRESH_INTERVAL st)])
           else (st\<lparr>status_textContent :=
                      [Phrase Failed,
                       Lit ('' '' @ toString (js_or (js_get_opt data ''error'') (JNum status)))]\<rparr>,
                 [])))"

text \<open>
  The whole of \<^verbatim>\<open>postSelection\<close> when nothing else runs during the \<^verbatim>\<open>await\<close>: the
  requests made (none or one), then the refresh schedules started. \<open>net\<close> is the bridge's
  answer to a request.
\<close>

datatype effect = Fetch request | ScheduleRefresh int int

definition postSelection :: "(request \<Rightarrow> fetch_result) \<Rightarrow> panel \<Rightarrow> string \<Rightarrow> panel \<times> effect list" where
  "postSelection net st bounds =
     (case postSelection_build st bounds of
        (st1, None) \<Rightarrow> (st1, [])
      | (st1, Some req) \<Rightarrow>
          (let (st2, scheds) = postSelection_resume st1 (net req)
           in (st2, Fetch req # map (\<lambda>(t, d). ScheduleRefresh t d) scheds)))"

text \<open>\<^verbatim>\<open>sendCurrentSelection\<close> (lines 355-373), up to the fetch it leads to.\<close>

definition sendCurrentSelection :: "page \<Rightarrow> panel \<Rightarrow> panel \<times> request option" where
  "sendCurrentSelection pg st =
     (if \<not> auto_checked st then (st, None)
      else if toLowerCase (str_or (act_value st) ''short-click'') = ''back''
      then postSelection_build st []
      else (case extractBounds pg of
              None \<Rightarrow> (st\<lparr>status_textContent := [Phrase BoundsNotFound]\<rparr>, None)
            | Some bd \<Rightarrow>
                if bd = [] \<or> \<not> BOUNDS_RE_test bd
                then (st\<lparr>status_textContent := [Phrase BoundsNotFound]\<rparr>, None)
                else postSelection_build (st\<lparr>bd_value := bd\<rparr>) bd))"

text \<open>The capturing click listener of the document (lines 111-119).\<close>

definition click_listener :: "page \<Rightarrow> panel \<Rightarrow> click_event \<Rightarrow> panel \<times> request option" where
  "click_listener pg st e =
     (if shouldIgnoreClick pg e then (st, None)
      else if \<not> isTrusted e then (st, None)
      else sendCurrentSelection pg st)"

text \<open>The Send button (lines 376-384).\<close>

definition send_onclick :: "panel \<Rightarrow> panel \<times> request option" where
  "send_onclick st =
     (let bd = trim (str_or (bd_value st) []);
          act = toLowerCase (str_or (act_value st) ''short-click'')
      in if act \<noteq> ''back'' \<and> \<not> BOUNDS_RE_test bd
         then (st\<lparr>status_textContent := [Phrase FillValidBounds]\<rparr>, None)
         else postSelection_build st bd)"

section \<open>Stopping\<close>

text \<open>\<^verbatim>\<open>s.replace(pat, rep)\<close> with a string pattern: the first occurrence is replaced.\<close>

fun replace_first :: "string \<Rightarrow> string \<Rightarrow> string \<Rightarrow> string" where
  "replace_first pat rep [] = (if pat = [] then rep else [])"
| "replace_first pat rep (c # cs) =
     (if prefix pat (c # cs) then rep @ drop (length pat) (c # cs)
      else c # replace_first pat rep cs)"

text \<open>
  The Stop button (lines 387-404), in two parts like \<^verbatim>\<open>postSelection\<close>.
  \<open>resolve base\<close> stands for \<^verbatim>\<open>new URL('/bridge/final_screenshot', base).toString()\<close>,
  the browser's URL resolution: \<open>Inr\<close> the URL, or \<open>Inl\<close> the text of the error the
  constructor throws. The second component is the URL \<^verbatim>\<open>fetch\<close> is called with.
\<close>

definition stop_begin :: "(string \<Rightarrow> string + string) \<Rightarrow> panel \<Rightarrow> panel \<times> string option" where
  "stop_begin resolve st =
     (let st1 = st\<lparr>auto_checked := False\<rparr>;
          base = str_or (ep_value st1) ENDPOINT_DEFAULT
      in if suffix ''/bridge/capture_tap'' base
         then (st1, Some (replace_first ''/bridge/capture_tap'' ''/bridge/final_screenshot'' base))
         else (case resolve base of
                 Inr url \<Rightarrow> (st1, Some url)
               | Inl e \<Rightarrow> (st1\<lparr>status_textContent := [Phrase StopException, Lit ('' '' @ e)]\<rparr>, None)))"

definition stop_resume :: "panel \<Rightarrow> fetch_result \<Rightarrow> panel \<times> (int \<times> int) list" where
  "stop_resume st r =
     (case r of
        Rejected e \<Rightarrow> (st\<lparr>status_textContent := [Phrase StopException, Lit ('' '' @ e)]\<rparr>, [])
      | Response status j \<Rightarrow>
          (let data = resp_data j in
           if resp_ok status \<and> truthy data \<and> truthy (js_get data ''ok'')
           then (st\<lparr>status_textContent :=
                      [Phrase StoppedFinalShot, Lit ('' '' @ toString (js_get data ''file''))]\<rparr>,
                 [(REFRESH_TIMES st, REFRESH_INTERVAL st)])
           else (st\<lparr>status_textContent :=
                      [Phrase StopFailed,
                       Lit ('' '' @ toString (js_or (js_get_opt data ''error'') (JNum status)))]\<rparr>,
                 [])))"

section \<open>The refresh scheduler\<close>

text \<open>The Apply button of the refresh parameters (lines 282-288).\<close>

definition applyR_onclick :: "panel \<Rightarrow> panel" where
  "applyR_onclick st =
     (let t = num_or (parseInt (str_or (rt_value st) ''3'')) 3;
          i = num_or (parseInt (str_or (ri_value st) ''500'')) 500;
          st1 = st\<lparr>REFRESH_TIMES := max 0 t, REFRESH_INTERVAL := max 0 i\<rparr>
      in st1\<lparr>status_textContent :=
               [Phrase RefreshApplied,
                Lit ('' times='' @ int_str (REFRESH_TIMES st1) @ '' interval=''
                     @ int_str (REFRESH_INTERVAL st1) @ ''ms'')]\<rparr>)"

text \<open>
  \<^verbatim>\<open>scheduleRefreshClicks\<close> (lines 268-279; lines 16-25 of \<^verbatim>\<open>weditor_autosend.js\<close>).
  Time is in milliseconds; \<open>doc_at t\<close> is the document at time \<open>t\<close>. A timer set at \<open>now\<close>
  with \<^verbatim>\<open>setTimeout(f, delay)\<close> runs at \<open>now + delay\<close>, a negative delay counting as 0.
  \<open>clickOnce\<close> is the closure of that name, run at time \<open>now\<close> with the counter at
  \<open>count\<close>: it gives the ticks from then on, each with its time and the button it
  clicked, if it found one. The parameter \<open>times\<close> is written \<open>ntimes\<close>.
\<close>

function clickOnce :: "(nat \<Rightarrow> element) \<Rightarrow> int \<Rightarrow> int \<Rightarrow> int \<Rightarrow> nat \<Rightarrow> (nat \<times> node_ref option) list" where
  "clickOnce doc_at ntimes delay count now =
     (now, findRefreshButton (doc_at now)) #
     (if count + 1 < ntimes then clickOnce doc_at ntimes delay (count + 1) (now + nat delay) else [])"
  by pat_completeness auto
termination
  by (relation "measure (\<lambda>(doc_at, ntimes, delay, count, now). nat (ntimes - count))") auto

declare clickOnce.simps [simp del]

definition scheduleRefreshClicks :: "(nat \<Rightarrow> element) \<Rightarrow> int \<Rightarrow> int \<Rightarrow> nat \<Rightarrow> (nat \<times> node_ref option) list" where
  "scheduleRefreshClicks doc_at ntimes delay now = clickOnce doc_at ntimes delay 0 (now + nat delay)"

text \<open>The clicks among the ticks.\<close>

definition clicks_of :: "(nat \<times> node_ref option) list \<Rightarrow> (nat \<times> node_ref) list" where
  "clicks_of ticks = concat (map (\<lambda>(t, b). case b of Some r \<Rightarrow> [(t, r)] | None \<Rightarrow> []) ticks)"

section \<open>Concrete inputs\<close>

text \<open>
  The bridge's answer of the tap scenario:
  \<^verbatim>\<open>{"ok":true,"elem_id":"elem_3","center":{"x":60,"y":45}}\<close>.
\<close>

definition scenario_response :: jsval where
  "scenario_response =
     JObj [(''ok'', JBool True), (''elem_id'', JStr ''elem_3''),
           (''center'', JObj [(''x'', JNum 60), (''y'', JNum 45)])]"

text \<open>
  A small host page: a toolbar whose button holds the refresh icon, an attribute region
  showing a rectangle, and the overlay panel with one of its buttons.
\<close>

definition demo_document :: element where
  "demo_document =
     Element ''html'' [] [] []
       [Element ''body'' [] [] []
          [Element ''div'' [''toolbar''] [] []
             [Element ''button'' [''p-button''] [] []
                [Element ''span'' [''p-button-icon'', ''pi'', ''pi-refresh''] [] [] []]],
           Element ''div'' [''right''] [] ''bounds [0,0][5,5]'' [],
           Element ''div'' [] [] [] [Element ''button'' [] [] [] []]]]"

definition demo_page :: page where
  "demo_page = \<lparr> document = demo_document, panel_ref = [0, 2],
                    window_selectedNode = JUndef, store_selectedNode = JUndef \<rparr>"

text \<open>A page with nothing selected and no attribute region.\<close>

definition empty_page :: page where
  "empty_page = \<lparr> document = Element ''html'' [] [] [] [Element ''body'' [] [] [] []],
                     panel_ref = [0, 0],
                     window_selectedNode = JUndef, store_selectedNode = JUndef \<rparr>"

section \<open>The rectangle pattern finds exactly the texts that hold a rectangle\<close>

lemma digits_then_SomeD:
  assumes "digits_then sep s = Some (a, r)"
  shows "uint_text a \<and> s = a @ sep # r"
proof -
  from assms have a: "a = takeWhile isDigit s" and ne: "a \<noteq> []"
    and d: "dropWhile isDigit s = sep # r"
    by (auto simp: digits_then_def Let_def split: if_splits list.splits)
  have "list_all isDigit a" unfolding a list_all_iff by (auto dest: set_takeWhileD)
  moreover have "s = a @ sep # r"
    using takeWhile_dropWhile_id [of isDigit s] a d by simp
  ultimately show ?thesis using ne by (simp add: uint_text_def)
qed

lemma digits_then_SomeI:
  assumes "uint_text a" and "\<not> isDigit sep"
  shows "digits_then sep (a @ sep # r) = Some (a, r)"
proof -
  from assms have all: "\<forall>x\<in>set a. isDigit x" and ne: "a \<noteq> []"
    by (auto simp: uint_text_def list_all_iff)
  have t: "takeWhile isDigit (a @ sep # r) = a"
    using all assms(2) by (simp add: takeWhile_append2)
  have d: "dropWhile isDigit (a @ sep # r) = sep # r"
    using all assms(2) by (simp add: dropWhile_append2)
  show ?thesis using ne by (simp add: digits_then_def t d)
qed

lemma match_here_SomeD:
  assumes "match_here s = Some m"
  shows "rect_form m \<and> (\<exists>post. s = m @ post)"
proof -
  from assms obtain s0 a s1 b s2 s3 c s4 d s5 where
    s: "s = CHR ''['' # s0" and
    1: "digits_then CHR '','' s0 = Some (a, s1)" and
    2: "digits_then CHR '']'' s1 = Some (b, s2)" and
    3: "s2 = CHR ''['' # s3" and
    4: "digits_then CHR '','' s3 = Some (c, s4)" and
    5: "digits_then CHR '']'' s4 = Some (d, s5)" and
    m: "m = ''['' @ a @ '','' @ b @ '']['' @ c @ '','' @ d @ '']''"
    by (auto simp: match_here_def split: list.splits if_splits option.splits)
  note A = digits_then_SomeD [OF 1] and B = digits_then_SomeD [OF 2]
    and C = digits_then_SomeD [OF 4] and D = digits_then_SomeD [OF 5]
  have "rect_form m" unfolding rect_form_def using A B C D m by blast
  moreover have "s = m @ s5" using s A B 3 C D m by simp
  ultimately show ?thesis by blast
qed

lemma not_digit_seps: "\<not> isDigit CHR '',''" "\<not> isDigit CHR '']''"
  by (simp_all add: isDigit_def)

lemma match_here_SomeI:
  assumes "rect_form m"
  shows "match_here (m @ post) = Some m"
proof -
  from assms obtain a b c d where u: "uint_text a" "uint_text b" "uint_text c" "uint_text d"
    and m: "m = ''['' @ a @ '','' @ b @ '']['' @ c @ '','' @ d @ '']''"
    unfolding rect_form_def by blast
  have 1: "digits_then CHR '','' (a @ CHR '','' # b @ '']['' @ c @ '','' @ d @ '']'' @ post)
      = Some (a, b @ '']['' @ c @ '','' @ d @ '']'' @ post)"
    by (rule digits_then_SomeI [OF u(1) not_digit_seps(1)])
  have 2: "digits_then CHR '']'' (b @ CHR '']'' # ''['' @ c @ '','' @ d @ '']'' @ post)
      = Some (b, ''['' @ c @ '','' @ d @ '']'' @ post)"
    by (rule digits_then_SomeI [OF u(2) not_digit_seps(2)])
  have 3: "digits_then CHR '','' (c @ CHR '','' # d @ '']'' @ post)
      = Some (c, d @ '']'' @ post)"
    by (rule digits_then_SomeI [OF u(3) not_digit_seps(1)])
  have 4: "digits_then CHR '']'' (d @ CHR '']'' # post) = Some (d, post)"
    by (rule digits_then_SomeI [OF u(4) not_digit_seps(2)])
  show ?thesis using 1 2 3 4 by (simp add: match_here_def m)
qed

lemma BOUNDS_RE_exec_SomeD:
  "BOUNDS_RE_exec s = Some m \<Longrightarrow> rect_form m \<and> (\<exists>pre post. s = pre @ m @ post)"
proof (induction s)
  case Nil
  then show ?case by simp
next
  case (Cons c cs)
  show ?case
  proof (cases "match_here (c # cs)")
    case None
    with Cons.prems have "BOUNDS_RE_exec cs = Some m" by simp
    from Cons.IH [OF this] obtain pre post where "rect_form m" "cs = pre @ m @ post" by blast
    then have "c # cs = (c # pre) @ m @ post" by simp
    with \<open>rect_form m\<close> show ?thesis by blast
  next
    case (Some m')
    with Cons.prems have "m' = m" by simp
    with Some match_here_SomeD [of "c # cs" m] obtain post where
      "rect_form m" "c # cs = [] @ m @ post" by auto
    then show ?thesis by blast
  qed
qed

lemma rect_form_nonempty: "rect_form m \<Longrightarrow> m \<noteq> []"
  by (auto simp: rect_form_def)

lemma BOUNDS_RE_exec_found:
  "rect_form r \<Longrightarrow> BOUNDS_RE_exec (pre @ r @ post) \<noteq> None"
proof (induction pre)
  case Nil
  from rect_form_nonempty [OF Nil] obtain x xs where r: "r = x # xs" by (cases r) auto
  have "match_here ((x # xs) @ post) = Some r" using match_here_SomeI [OF Nil, of post] r by simp
  then show ?case using r by simp
next
  case (Cons c pre)
  then show ?case by (simp split: option.splits)
qed

lemma BOUNDS_RE_test_iff:
  "BOUNDS_RE_test s \<longleftrightarrow> (\<exists>pre r post. s = pre @ r @ post \<and> rect_form r)"
proof
  assume "BOUNDS_RE_test s"
  then obtain m where "BOUNDS_RE_exec s = Some m" by (auto simp: BOUNDS_RE_test_def)
  from BOUNDS_RE_exec_SomeD [OF this] show "\<exists>pre r post. s = pre @ r @ post \<and> rect_form r"
    by blast
next
  assume "\<exists>pre r post. s = pre @ r @ post \<and> rect_form r"
  then show "BOUNDS_RE_test s" by (auto simp: BOUNDS_RE_test_def dest: BOUNDS_RE_exec_found)
qed

lemma BOUNDS_RE_exec_test: "BOUNDS_RE_exec s = Some m \<Longrightarrow> BOUNDS_RE_test m"
proof -
  assume "BOUNDS_RE_exec s = Some m"
  then have "rect_form m" by (simp add: BOUNDS_RE_exec_SomeD)
  then have "m = [] @ m @ [] \<and> rect_form m" by simp
  then show ?thesis unfolding BOUNDS_RE_test_iff by blast
qed

lemma rect_form_hd: "rect_form s \<Longrightarrow> hd s = CHR ''[''"
  by (auto simp: rect_form_def)

section \<open>Objects as key lists\<close>

lemma map_of_set_field: "map_of (set_field k v kvs) = (map_of kvs)(k \<mapsto> v)"
  by (induction k v kvs rule: set_field.induct) (auto simp: fun_eq_iff)

lemma map_fst_set_field:
  "set (map fst (set_field k v kvs)) = insert k (set (map fst kvs))"
  by (induction k v kvs rule: set_field.induct) (simp_all add: insert_commute)

lemma keys_set_field: "fst ` set (set_field k v kvs) = insert k (fst ` set kvs)"
  using map_fst_set_field [of k v kvs] by simp

lemma distinct_set_field:
  "distinct (map fst kvs) \<Longrightarrow> distinct (map fst (set_field k v kvs))"
proof (induction kvs)
  case Nil
  then show ?case by simp
next
  case (Cons p kvs)
  obtain k' v' where p: "p = (k', v')" by (cases p)
  show ?case
  proof (cases "k' = k")
    case True
    with Cons.prems p show ?thesis by simp
  next
    case False
    have "k' \<notin> fst ` set (set_field k v kvs)"
      using Cons.prems p False by (simp add: keys_set_field)
    with Cons p False show ?thesis by simp
  qed
qed

lemma set_field_fresh: "k \<notin> fst ` set kvs \<Longrightarrow> set_field k v kvs = kvs @ [(k, v)]"
  by (induction k v kvs rule: set_field.induct) auto

lemma assign_all_distinct:
  "distinct (map fst acc) \<Longrightarrow>
   distinct (map fst (foldl (\<lambda>acc (k, v). set_field k v acc) acc b))"
  by (induction b arbitrary: acc) (auto simp: distinct_set_field)

lemma assign_all_append:
  "distinct (map fst (acc @ b)) \<Longrightarrow> foldl (\<lambda>acc (k, v). set_field k v acc) acc b = acc @ b"
proof (induction b arbitrary: acc)
  case Nil
  then show ?case by simp
next
  case (Cons p b)
  obtain k v where p: "p = (k, v)" by (cases p)
  from Cons.prems p have fresh: "k \<notin> fst ` set acc" by auto
  from Cons.prems p have d: "distinct (map fst ((acc @ [(k, v)]) @ b))" by simp
  show ?case using Cons.IH [OF d] p by (simp add: set_field_fresh [OF fresh])
qed

lemma object_assign_single:
  "map_of (object_assign a [(k, v)]) = (map_of (object_assign a []))(k \<mapsto> v)"
  by (simp add: object_assign_def map_of_set_field)

lemma object_assign_distinct: "distinct (map fst (object_assign a b))"
  unfolding object_assign_def by (intro assign_all_distinct) simp

lemma object_assign_idem:
  "distinct (map fst a) \<Longrightarrow> object_assign a [] = a"
  using assign_all_append [of "[]" a] by (simp add: object_assign_def)

lemma js_get_saved:
  "js_get (JObj (object_assign a [(k, v)])) k = v"
  by (simp add: object_assign_single)

lemma js_get_kept:
  "k' \<noteq> k \<Longrightarrow>
   js_get (JObj (object_assign (object_assign a [(k', v')]) [(k, v)])) k' = v'"
proof -
  assume ne: "k' \<noteq> k"
  have "object_assign (object_assign a [(k', v')]) [] = object_assign a [(k', v')]"
    by (rule object_assign_idem) (rule object_assign_distinct)
  then have "map_of (object_assign (object_assign a [(k', v')]) [(k, v)])
      = (map_of (object_assign a [(k', v')]))(k \<mapsto> v)"
    by (simp add: object_assign_single [of "object_assign a [(k', v')]"])
  then show ?thesis using ne by (simp add: object_assign_single [of a])
qed

section \<open>Values of the concrete inputs\<close>

lemma lower_short_click: "toLowerCase ''short-click'' = ''short-click''"
  by (simp add: toLowerCase_def lower_char_def)
lemma lower_tap: "toLowerCase ''tap'' = ''tap''"
  by (simp add: toLowerCase_def lower_char_def)
lemma lower_swipe: "toLowerCase ''swipe'' = ''swipe''"
  by (simp add: toLowerCase_def lower_char_def)
lemma lower_back: "toLowerCase ''back'' = ''back''"
  by (simp add: toLowerCase_def lower_char_def)
lemma lower_up: "toLowerCase ''up'' = ''up''"
  by (simp add: toLowerCase_def lower_char_def)
lemma parseInt_600: "parseInt ''600'' = Some 600"
  by (simp add: parseInt_def isWhite_def isDigit_def digit_val_def)
lemma parseInt_400: "parseInt ''400'' = Some 400"
  by (simp add: parseInt_def isWhite_def isDigit_def digit_val_def)
lemma parseInt_75: "parseInt ''75'' = Some 75"
  by (simp add: parseInt_def isWhite_def isDigit_def digit_val_def)
lemma parseInt_30: "parseInt ''30'' = Some 30"
  by (simp add: parseInt_def isWhite_def isDigit_def digit_val_def)
lemma parseInt_m40: "parseInt ''-40'' = Some (- 40)"
  by (simp add: parseInt_def isWhite_def isDigit_def digit_val_def)
lemma parseInt_200: "parseInt ''200'' = Some 200"
  by (simp add: parseInt_def isWhite_def isDigit_def digit_val_def)
lemma parseInt_m1: "parseInt ''-1'' = Some (- 1)"
  by (simp add: parseInt_def isWhite_def isDigit_def digit_val_def)
lemma parseInt_500: "parseInt ''500'' = Some 500"
  by (simp add: parseInt_def isWhite_def isDigit_def digit_val_def)
lemma int_str_75: "int_str 75 = ''75''"
  by (simp add: int_str_def digit_char_def)
lemma test_scenario_rect: "BOUNDS_RE_test ''[10,20][110,70]''"
  by (simp add: BOUNDS_RE_test_def match_here_def digits_then_def isDigit_def)
lemma test_padded_rect: "BOUNDS_RE_test ''x[1,2][3,4]''"
  by (simp add: BOUNDS_RE_test_def match_here_def digits_then_def isDigit_def)
lemma test_abc: "\<not> BOUNDS_RE_test ''abc''"
  by (simp add: BOUNDS_RE_test_def match_here_def digits_then_def isDigit_def)
lemma test_empty: "\<not> BOUNDS_RE_test []"
  by (simp add: BOUNDS_RE_test_def)
lemma ok_text_scenario: "ok_text scenario_response = ''OK elem=elem_3 center=(60,45)''"
  by (simp add: ok_text_def scenario_response_def int_str_def digit_char_def)

lemma build_action_markup: "build_action panel_markup = ''short-click''"
  by (simp add: build_action_def panel_markup_def str_or_def lower_short_click)

lemmas build_defs = build_action_def build_base_def build_capture_def build_text_def build_swipe_def

section \<open>The tap scenario\<close>

text \<open>
  Claim C1, as the script has it. Line 308 puts \<open>durationMs\<close> into every body, and the
  action sent is the value of the action select in lower case, which is \<open>short-click\<close>
  for the panel's tap option. For an action \<open>a\<close> that is none of \<open>input\<close>, \<open>swipe\<close>,
  \<open>back\<close>, with the duration field at its initial 600, capture mode \<open>post\<close> and wait
  400, the rectangle \<open>[10,20][110,70]\<close> is sent in one request whose body is
  \<open>{action: a, durationMs: 600, tap: true, waitAfterMs: 400, bounds: "[10,20][110,70]"}\<close>;
  when the bridge answers 200 with the scenario's JSON, the status line reads
  \<open>OK elem=elem_3 center=(60,45)\<close>, which contains \<open>elem_3\<close> and \<open>(60,45)\<close>, and
  \<^verbatim>\<open>scheduleRefreshClicks\<close> is called exactly once.
\<close>

theorem tap_scenario:
  assumes "build_action st = a" and "a \<noteq> ''input''" and "a \<noteq> ''swipe''" and "a \<noteq> ''back''"
    and "dur_value st = ''600''"
    and "capMode_value st = ''post''" and "wait_value st = ''400''"
    and "net \<lparr>req_url = str_or (ep_value st) ENDPOINT_DEFAULT,
               req_body = [(''action'', JStr a), (''durationMs'', JNum 600),
                           (''tap'', JBool True), (''waitAfterMs'', JNum 400),
                           (''bounds'', JStr ''[10,20][110,70]'')]\<rparr>
         = Response 200 (Some scenario_response)"
  shows "postSelection net st ''[10,20][110,70]'' =
           (st\<lparr>status_textContent := [Lit ''OK elem=elem_3 center=(60,45)'']\<rparr>,
            [Fetch \<lparr>req_url = str_or (ep_value st) ENDPOINT_DEFAULT,
                    req_body = [(''action'', JStr a), (''durationMs'', JNum 600),
                                (''tap'', JBool True), (''waitAfterMs'', JNum 400),
                                (''bounds'', JStr ''[10,20][110,70]'')]\<rparr>,
             ScheduleRefresh (REFRESH_TIMES st) (REFRESH_INTERVAL st)])
         \<and> str_includes ''OK elem=elem_3 center=(60,45)'' ''elem_3''
         \<and> str_includes ''OK elem=elem_3 center=(60,45)'' ''(60,45)''"
proof -
  have base: "build_base st = [(''action'', JStr a), (''durationMs'', JNum 600), (''tap'', JBool True)]"
    using assms(1,5) by (simp add: build_base_def str_or_def num_or_def parseInt_600)
  have body: "build_swipe st (build_text st (build_capture st (build_base st))) =
      [(''action'', JStr a), (''durationMs'', JNum 600), (''tap'', JBool True),
       (''waitAfterMs'', JNum 400)]"
    unfolding base using assms(1-4,6,7)
    by (simp add: build_swipe_def build_text_def build_capture_def str_or_def num_or_def parseInt_400)
  have b: "postSelection_build st ''[10,20][110,70]'' =
      (st\<lparr>status_textContent := [Phrase Sending]\<rparr>,
       Some \<lparr>req_url = str_or (ep_value st) ENDPOINT_DEFAULT,
             req_body = [(''action'', JStr a), (''durationMs'', JNum 600),
                         (''tap'', JBool True), (''waitAfterMs'', JNum 400),
                         (''bounds'', JStr ''[10,20][110,70]'')]\<rparr>)"
    using assms(1,4) by (simp add: postSelection_build_def Let_def body test_scenario_rect)
  have ok: "truthy scenario_response \<and> truthy (js_get scenario_response ''ok'')"
    by (simp add: scenario_response_def)
  have r: "postSelection_resume (st\<lparr>status_textContent := [Phrase Sending]\<rparr>)
        (Response 200 (Some scenario_response)) =
      (st\<lparr>status_textContent := [Lit ''OK elem=elem_3 center=(60,45)'']\<rparr>,
       [(REFRESH_TIMES st, REFRESH_INTERVAL st)])"
    using ok by (simp add: postSelection_resume_def resp_data_def resp_ok_def ok_text_scenario)
  have 1: "postSelection net st ''[10,20][110,70]'' =
           (st\<lparr>status_textContent := [Lit ''OK elem=elem_3 center=(60,45)'']\<rparr>,
            [Fetch \<lparr>req_url = str_or (ep_value st) ENDPOINT_DEFAULT,
                    req_body = [(''action'', JStr a), (''durationMs'', JNum 600),
                                (''tap'', JBool True), (''waitAfterMs'', JNum 400),
                                (''bounds'', JStr ''[10,20][110,70]'')]\<rparr>,
             ScheduleRefresh (REFRESH_TIMES st) (REFRESH_INTERVAL st)])"
    by (simp add: postSelection_def b assms(8) r)
  have 2: "str_includes ''OK elem=elem_3 center=(60,45)'' ''elem_3''" by simp
  have 3: "str_includes ''OK elem=elem_3 center=(60,45)'' ''(60,45)''" by simp
  from 1 2 3 show ?thesis by blast
qed

text \<open>Claim C1, witness: the scenario on the panel as its markup creates it (tap option
  selected), and with the action value \<open>tap\<close>.\<close>

theorem tap_scenario_witness:
  "postSelection (\<lambda>_. Response 200 (Some scenario_response)) panel_markup ''[10,20][110,70]'' =
     (panel_markup\<lparr>status_textContent := [Lit ''OK elem=elem_3 center=(60,45)'']\<rparr>,
      [Fetch \<lparr>req_url = ENDPOINT_DEFAULT,
              req_body = [(''action'', JStr ''short-click''), (''durationMs'', JNum 600),
                          (''tap'', JBool True), (''waitAfterMs'', JNum 400),
                          (''bounds'', JStr ''[10,20][110,70]'')]\<rparr>,
       ScheduleRefresh 1 500])
   \<and> postSelection (\<lambda>_. Response 200 (Some scenario_response))
        (panel_markup\<lparr>act_value := ''tap''\<rparr>) ''[10,20][110,70]'' =
     (panel_markup\<lparr>act_value := ''tap'',
        status_textContent := [Lit ''OK elem=elem_3 center=(60,45)'']\<rparr>,
      [Fetch \<lparr>req_url = ENDPOINT_DEFAULT,
              req_body = [(''action'', JStr ''tap''), (''durationMs'', JNum 600),
                          (''tap'', JBool True), (''waitAfterMs'', JNum 400),
                          (''bounds'', JStr ''[10,20][110,70]'')]\<rparr>,
       ScheduleRefresh 1 500])"
proof -
  have e: "str_or (ep_value panel_markup) ENDPOINT_DEFAULT = ENDPOINT_DEFAULT"
    "str_or (ep_value (panel_markup\<lparr>act_value := ''tap''\<rparr>)) ENDPOINT_DEFAULT = ENDPOINT_DEFAULT"
    by (simp_all add: panel_markup_def str_or_def)
  have t: "build_action (panel_markup\<lparr>act_value := ''tap''\<rparr>) = ''tap''"
    by (simp add: build_action_def str_or_def lower_tap)
  show ?thesis
    using tap_scenario [OF build_action_markup, of "\<lambda>_. Response 200 (Some scenario_response)"]
      tap_scenario [OF t, of "\<lambda>_. Response 200 (Some scenario_response)"]
    unfolding e by (simp add: panel_markup_def)
qed

text \<open>
  Claim C1, counterexample to the payload as the claim lists it: with the panel's tap
  option, and also with the action value \<open>tap\<close> itself, the body built for
  \<open>[10,20][110,70]\<close> has the key \<open>durationMs\<close>, so it is not the four-field object
  \<open>{action, bounds, tap, waitAfterMs}\<close>.
\<close>

theorem tap_scenario_payload_counterexample:
  "snd (postSelection_build panel_markup ''[10,20][110,70]'') =
     Some \<lparr>req_url = ENDPOINT_DEFAULT,
           req_body = [(''action'', JStr ''short-click''), (''durationMs'', JNum 600),
                       (''tap'', JBool True), (''waitAfterMs'', JNum 400),
                       (''bounds'', JStr ''[10,20][110,70]'')]\<rparr>
   \<and> snd (postSelection_build (panel_markup\<lparr>act_value := ''tap''\<rparr>) ''[10,20][110,70]'') =
     Some \<lparr>req_url = ENDPOINT_DEFAULT,
           req_body = [(''action'', JStr ''tap''), (''durationMs'', JNum 600),
                       (''tap'', JBool True), (''waitAfterMs'', JNum 400),
                       (''bounds'', JStr ''[10,20][110,70]'')]\<rparr>
   \<and> map_of [(''action'', JStr ''tap''), (''durationMs'', JNum 600),
              (''tap'', JBool True), (''waitAfterMs'', JNum 400),
              (''bounds'', JStr ''[10,20][110,70]'')]
     \<noteq> map_of [(''action'', JStr ''tap''), (''bounds'', JStr ''[10,20][110,70]''),
               (''tap'', JBool True), (''waitAfterMs'', JNum 400)]"
proof -
  have 1: "snd (postSelection_build panel_markup ''[10,20][110,70]'') =
     Some \<lparr>req_url = ENDPOINT_DEFAULT,
           req_body = [(''action'', JStr ''short-click''), (''durationMs'', JNum 600),
                       (''tap'', JBool True), (''waitAfterMs'', JNum 400),
                       (''bounds'', JStr ''[10,20][110,70]'')]\<rparr>"
    by (simp add: postSelection_build_def build_defs str_or_def num_or_def lower_short_click
        parseInt_600 parseInt_400 test_scenario_rect panel_markup_def ENDPOINT_DEFAULT_def)
  have 2: "snd (postSelection_build (panel_markup\<lparr>act_value := ''tap''\<rparr>) ''[10,20][110,70]'') =
     Some \<lparr>req_url = ENDPOINT_DEFAULT,
           req_body = [(''action'', JStr ''tap''), (''durationMs'', JNum 600),
                       (''tap'', JBool True), (''waitAfterMs'', JNum 400),
                       (''bounds'', JStr ''[10,20][110,70]'')]\<rparr>"
    by (simp add: postSelection_build_def build_defs str_or_def num_or_def lower_tap
        parseInt_600 parseInt_400 test_scenario_rect panel_markup_def ENDPOINT_DEFAULT_def)
  have 3: "map_of [(''action'', JStr ''tap''), (''durationMs'', JNum 600),
              (''tap'', JBool True), (''waitAfterMs'', JNum 400),
              (''bounds'', JStr ''[10,20][110,70]'')]
     \<noteq> map_of [(''action'', JStr ''tap''), (''bounds'', JStr ''[10,20][110,70]''),
               (''tap'', JBool True), (''waitAfterMs'', JNum 400)]"
  proof
    assume "map_of [(''action'', JStr ''tap''), (''durationMs'', JNum 600),
              (''tap'', JBool True), (''waitAfterMs'', JNum 400),
              (''bounds'', JStr ''[10,20][110,70]'')]
     = map_of [(''action'', JStr ''tap''), (''bounds'', JStr ''[10,20][110,70]''),
               (''tap'', JBool True), (''waitAfterMs'', JNum 400)]"
    from fun_cong [OF this, of "''durationMs''"] show False by simp
  qed
  from 1 2 3 show ?thesis by blast
qed

section \<open>Rectangle validation before a send\<close>

lemma rect_form_padded: "\<not> rect_form ''x[1,2][3,4]''"
  using rect_form_hd [of "''x[1,2][3,4]''"] by auto

lemma trim_abc: "trim ''abc'' = ''abc''"
  by (simp add: trim_def isWhite_def)

lemma trim_padded: "trim ''x[1,2][3,4]'' = ''x[1,2][3,4]''"
  by (simp add: trim_def isWhite_def)

text \<open>
  Claim C2, as the script has it. \<open>BOUNDS_RE\<close> is not anchored: the test accepts a text
  exactly when some part of it has the form \<open>[<uint>,<uint>][<uint>,<uint>]\<close>, with
  anything before and after. For an action other than \<open>back\<close>, the Send button rejects
  the (trimmed) Bounds field when the test fails: the status line asks for a valid Bounds
  and \<^verbatim>\<open>postSelection\<close> is not called, so nothing is sent.
\<close>

theorem rectangle_validation:
  "(BOUNDS_RE_test s \<longleftrightarrow> (\<exists>pre r post. s = pre @ r @ post \<and> rect_form r))
   \<and> (build_action st \<noteq> ''back'' \<and> \<not> BOUNDS_RE_test (trim (bd_value st))
        \<longrightarrow> send_onclick st = (st\<lparr>status_textContent := [Phrase FillValidBounds]\<rparr>, None))"
  by (simp add: BOUNDS_RE_test_iff send_onclick_def build_action_def str_or_def)

text \<open>Claim C2, witness: the scenario's rectangle is accepted, and the field text
  \<open>abc\<close> is rejected by the Send button of the initial panel.\<close>

theorem rectangle_validation_witness:
  "BOUNDS_RE_test ''[10,20][110,70]''
   \<and> (\<exists>pre r post. ''[10,20][110,70]'' = pre @ r @ post \<and> rect_form r)
   \<and> build_action (panel_markup\<lparr>bd_value := ''abc''\<rparr>) \<noteq> ''back''
   \<and> \<not> BOUNDS_RE_test (trim (bd_value (panel_markup\<lparr>bd_value := ''abc''\<rparr>)))
   \<and> send_onclick (panel_markup\<lparr>bd_value := ''abc''\<rparr>)
       = (panel_markup\<lparr>bd_value := ''abc'', status_textContent := [Phrase FillValidBounds]\<rparr>, None)"
proof -
  have a: "build_action (panel_markup\<lparr>bd_value := ''abc''\<rparr>) \<noteq> ''back''"
    by (simp add: build_action_def panel_markup_def str_or_def lower_short_click)
  have b: "\<not> BOUNDS_RE_test (trim (bd_value (panel_markup\<lparr>bd_value := ''abc''\<rparr>)))"
    by (simp add: trim_abc test_abc)
  show ?thesis
    using rectangle_validation [of "''[10,20][110,70]''" "panel_markup\<lparr>bd_value := ''abc''\<rparr>"]
      a b test_scenario_rect by simp
qed

text \<open>
  Claim C2, counterexample to "accepted iff exactly of the form": \<open>x[1,2][3,4]\<close> is not
  of the form, the test accepts it, and the Send button sends it whole as \<open>bounds\<close>.
\<close>

theorem rectangle_validation_counterexample:
  "BOUNDS_RE_test ''x[1,2][3,4]'' \<and> \<not> rect_form ''x[1,2][3,4]''
   \<and> send_onclick (panel_markup\<lparr>bd_value := ''x[1,2][3,4]''\<rparr>) =
       (panel_markup\<lparr>bd_value := ''x[1,2][3,4]'', status_textContent := [Phrase Sending]\<rparr>,
        Some \<lparr>req_url = ENDPOINT_DEFAULT,
              req_body = [(''action'', JStr ''short-click''), (''durationMs'', JNum 600),
                          (''tap'', JBool True), (''waitAfterMs'', JNum 400),
                          (''bounds'', JStr ''x[1,2][3,4]'')]\<rparr>)"
proof -
  have "send_onclick (panel_markup\<lparr>bd_value := ''x[1,2][3,4]''\<rparr>) =
       (panel_markup\<lparr>bd_value := ''x[1,2][3,4]'', status_textContent := [Phrase Sending]\<rparr>,
        Some \<lparr>req_url = ENDPOINT_DEFAULT,
              req_body = [(''action'', JStr ''short-click''), (''durationMs'', JNum 600),
                          (''tap'', JBool True), (''waitAfterMs'', JNum 400),
                          (''bounds'', JStr ''x[1,2][3,4]'')]\<rparr>)"
    by (simp add: send_onclick_def Let_def postSelection_build_def build_defs str_or_def num_or_def
        lower_short_click parseInt_600 parseInt_400 trim_padded test_padded_rect
        panel_markup_def ENDPOINT_DEFAULT_def)
  with test_padded_rect rect_form_padded show ?thesis by blast
qed

section \<open>The duration field of the payload\<close>

lemma body_durationMs:
  "map_of (build_swipe st (build_text st (build_capture st (build_base st)))) ''durationMs''
   = Some (JNum (max 1 (num_or (parseInt (str_or (dur_value st) ''600'')) 600)))"
  by (simp add: build_swipe_def build_text_def build_capture_def build_base_def map_of_set_field)

text \<open>
  Claim C3, as the script has it. Line 308 starts every body with
  \<open>{action, durationMs, tap}\<close>, so every request that is built carries \<open>durationMs\<close>,
  whatever the action: the duration field parsed, 600 when that is empty, zero or not a
  number, and at least 1.
\<close>

theorem durationMs_in_every_payload:
  "postSelection_build st bounds = (st', Some req) \<Longrightarrow>
   map_of (req_body req) ''durationMs''
     = Some (JNum (max 1 (num_or (parseInt (str_or (dur_value st) ''600'')) 600)))"
  using body_durationMs [of st]
  by (auto simp: postSelection_build_def Let_def map_of_set_field split: if_splits)

text \<open>Claim C3, witness: the request built from the initial panel for
  \<open>[10,20][110,70]\<close>.\<close>

theorem durationMs_in_every_payload_witness:
  "map_of [(''action'', JStr ''short-click''), (''durationMs'', JNum 600),
           (''tap'', JBool True), (''waitAfterMs'', JNum 400),
           (''bounds'', JStr ''[10,20][110,70]'')] ''durationMs''
   = Some (JNum (max 1 (num_or (parseInt (str_or (dur_value panel_markup) ''600'')) 600)))"
proof -
  have "postSelection_build panel_markup ''[10,20][110,70]'' =
      (panel_markup\<lparr>status_textContent := [Phrase Sending]\<rparr>,
       Some \<lparr>req_url = ENDPOINT_DEFAULT,
             req_body = [(''action'', JStr ''short-click''), (''durationMs'', JNum 600),
                         (''tap'', JBool True), (''waitAfterMs'', JNum 400),
                         (''bounds'', JStr ''[10,20][110,70]'')]\<rparr>)"
    by (simp add: postSelection_build_def build_defs str_or_def num_or_def lower_short_click
        parseInt_600 parseInt_400 test_scenario_rect panel_markup_def ENDPOINT_DEFAULT_def)
  from durationMs_in_every_payload [OF this] show ?thesis by simp
qed

text \<open>
  Claim C3, counterexample to "tap omits durationMs": with the tap option
  (\<open>short-click\<close>) selected, the body built has the key \<open>durationMs\<close>.
\<close>

theorem durationMs_tap_counterexample:
  "build_action panel_markup = ''short-click''
   \<and> snd (postSelection_build panel_markup ''[10,20][110,70]'') =
       Some \<lparr>req_url = ENDPOINT_DEFAULT,
             req_body = [(''action'', JStr ''short-click''), (''durationMs'', JNum 600),
                         (''tap'', JBool True), (''waitAfterMs'', JNum 400),
                         (''bounds'', JStr ''[10,20][110,70]'')]\<rparr>
   \<and> ''durationMs'' \<in> fst ` set [(''action'', JStr ''short-click''), (''durationMs'', JNum 600),
                         (''tap'', JBool True), (''waitAfterMs'', JNum 400),
                         (''bounds'', JStr ''[10,20][110,70]'')]"
  by (simp add: postSelection_build_def build_defs str_or_def num_or_def lower_short_click
        parseInt_600 parseInt_400 test_scenario_rect panel_markup_def ENDPOINT_DEFAULT_def)

section \<open>No rectangle, no request\<close>

lemma first_match_valid: "first_match ts = Some b \<Longrightarrow> BOUNDS_RE_test b"
  by (induction ts) (auto split: option.splits dest: BOUNDS_RE_exec_test)

lemma node_bounds_valid: "node_bounds pg = Some b \<Longrightarrow> BOUNDS_RE_test b"
  by (auto simp: node_bounds_def Let_def split: if_splits jsval.splits)

lemma extractBounds_valid: "extractBounds pg = Some b \<Longrightarrow> BOUNDS_RE_test b"
  by (auto simp: extractBounds_def split: option.splits
      dest: first_match_valid node_bounds_valid)

lemma extractBounds_empty_page: "extractBounds empty_page = None"
  by (simp add: extractBounds_def node_bounds_def getSelectedNode_def js_or_def
      candidate_texts_def querySelectorAll_def empty_page_def matches_def sel_candidates_def
      has_tag_def has_class_def)

text \<open>
  Claim C4. For every action other than \<open>back\<close>: \<^verbatim>\<open>postSelection\<close> called with a text
  that fails the pattern sets the status line to the missing-Bounds message and returns
  before \<^verbatim>\<open>fetch\<close> (no request, no refresh); when \<^verbatim>\<open>extractBounds\<close> finds no rectangle on
  the page, a click leads to no request, and with auto-send on the status line says that no
  valid Bounds was found; when the Bounds field fails the pattern, the Send button sets
  the status line to the fill-in message and makes no request.
\<close>

theorem missing_rectangle_aborts:
  assumes "build_action st \<noteq> ''back''"
  shows "(\<not> BOUNDS_RE_test b \<longrightarrow>
            postSelection_build st b = (st\<lparr>status_textContent := [Phrase MissingValidBounds]\<rparr>, None)
          \<and> postSelection net st b = (st\<lparr>status_textContent := [Phrase MissingValidBounds]\<rparr>, []))
       \<and> (extractBounds pg = None \<longrightarrow>
            snd (sendCurrentSelection pg st) = None
          \<and> snd (click_listener pg st e) = None
          \<and> (auto_checked st \<longrightarrow>
               sendCurrentSelection pg st = (st\<lparr>status_textContent := [Phrase BoundsNotFound]\<rparr>, None)))
       \<and> (\<not> BOUNDS_RE_test (trim (bd_value st)) \<longrightarrow>
            send_onclick st = (st\<lparr>status_textContent := [Phrase FillValidBounds]\<rparr>, None))"
proof -
  have a: "postSelection_build st b = (st\<lparr>status_textContent := [Phrase MissingValidBounds]\<rparr>, None)"
    if "\<not> BOUNDS_RE_test b"
    using that assms by (simp add: postSelection_build_def Let_def)
  have a': "postSelection net st b = (st\<lparr>status_textContent := [Phrase MissingValidBounds]\<rparr>, [])"
    if "\<not> BOUNDS_RE_test b"
    using a [OF that] by (simp add: postSelection_def)
  have act: "toLowerCase (str_or (act_value st) ''short-click'') \<noteq> ''back''"
    using assms by (simp add: build_action_def)
  have b1: "snd (sendCurrentSelection pg st) = None" if "extractBounds pg = None"
    using that act by (simp add: sendCurrentSelection_def)
  have b2: "snd (click_listener pg st e) = None" if "extractBounds pg = None"
    using b1 [OF that] by (simp add: click_listener_def)
  have b3: "sendCurrentSelection pg st = (st\<lparr>status_textContent := [Phrase BoundsNotFound]\<rparr>, None)"
    if "extractBounds pg = None" "auto_checked st"
    using that act by (simp add: sendCurrentSelection_def)
  have c: "send_onclick st = (st\<lparr>status_textContent := [Phrase FillValidBounds]\<rparr>, None)"
    if "\<not> BOUNDS_RE_test (trim (bd_value st))"
    using that act by (simp add: send_onclick_def str_or_def)
  from a a' b1 b2 b3 c show ?thesis by blast
qed

text \<open>Claim C4, witness: the initial panel (tap option, empty Bounds field) on a page
  with nothing selected.\<close>

theorem missing_rectangle_aborts_witness:
  "postSelection_build panel_markup ''abc''
     = (panel_markup\<lparr>status_textContent := [Phrase MissingValidBounds]\<rparr>, None)
   \<and> postSelection (\<lambda>_. Response 200 (Some scenario_response)) panel_markup ''abc''
     = (panel_markup\<lparr>status_textContent := [Phrase MissingValidBounds]\<rparr>, [])
   \<and> sendCurrentSelection empty_page panel_markup
     = (panel_markup\<lparr>status_textContent := [Phrase BoundsNotFound]\<rparr>, None)
   \<and> snd (click_listener empty_page panel_markup \<lparr>target = Some [0], isTrusted = True\<rparr>) = None
   \<and> send_onclick panel_markup
     = (panel_markup\<lparr>status_textContent := [Phrase FillValidBounds]\<rparr>, None)"
proof -
  have auto: "auto_checked panel_markup" by (simp add: panel_markup_def)
  have bd: "\<not> BOUNDS_RE_test (trim (bd_value panel_markup))"
    by (simp add: panel_markup_def trim_def test_empty)
  have act: "build_action panel_markup \<noteq> ''back''" by (simp add: build_action_markup)
  show ?thesis
    using missing_rectangle_aborts [OF act, of "''abc''" "\<lambda>_. Response 200 (Some scenario_response)"
        empty_page "\<lparr>target = Some [0], isTrusted = True\<rparr>"]
      test_abc extractBounds_empty_page auto bd
    by simp
qed

section \<open>The swipe fields of the payload\<close>

lemma build_action_swipe_up:
  "build_action (panel_markup\<lparr>act_value := ''swipe'', dir_value := ''up'', dx_value := ''30'',
      dy_value := ''-40'', dist_value := ''200''\<rparr>) = ''swipe''"
  by (simp add: build_action_def str_or_def lower_swipe)

lemma swipe_up_build:
  "postSelection_build (panel_markup\<lparr>act_value := ''swipe'', dir_value := ''up'', dx_value := ''30'',
      dy_value := ''-40'', dist_value := ''200''\<rparr>) ''[10,20][110,70]'' =
     (panel_markup\<lparr>act_value := ''swipe'', dir_value := ''up'', dx_value := ''30'',
        dy_value := ''-40'', dist_value := ''200'', status_textContent := [Phrase Sending]\<rparr>,
      Some \<lparr>req_url = ENDPOINT_DEFAULT,
            req_body = [(''action'', JStr ''swipe''), (''durationMs'', JNum 600),
                        (''tap'', JBool True), (''waitAfterMs'', JNum 400),
                        (''dx'', JNum 30), (''dy'', JNum (- 40)),
                        (''direction'', JStr ''up''), (''distance'', JNum 200),
                        (''bounds'', JStr ''[10,20][110,70]'')]\<rparr>)"
  by (simp add: postSelection_build_def build_defs str_or_def num_or_def lower_swipe lower_up
      parseInt_600 parseInt_400 parseInt_30 parseInt_m40 parseInt_200 test_scenario_rect
      panel_markup_def ENDPOINT_DEFAULT_def)

lemma body_swipe_fields:
  assumes "build_action st = ''swipe''"
  shows "map_of (build_swipe st body) ''dx'' = Some (JNum (num_or (parseInt (str_or (dx_value st) ''0'')) 0))"
    and "map_of (build_swipe st body) ''dy'' = Some (JNum (num_or (parseInt (str_or (dy_value st) ''0'')) 0))"
    and "map_of (build_swipe st body) ''direction'' = Some (JStr (toLowerCase (str_or (dir_value st) ''custom'')))"
    and "map_of (build_swipe st body) ''distance'' = Some (JNum (num_or (parseInt (str_or (dist_value st) ''0'')) 0))"
  using assms by (simp_all add: build_swipe_def map_of_set_field)

text \<open>
  Claim C5, as the script has it. For the action \<open>swipe\<close>, lines 318-323 put \<open>dx\<close>,
  \<open>dy\<close>, \<open>direction\<close> and \<open>distance\<close> into the body, each as the panel field gives it,
  whatever the direction is: the script does not leave \<open>dx\<close> and \<open>dy\<close> out when a
  direction other than \<open>custom\<close> is selected.
\<close>

theorem swipe_payload_carries_dx_dy:
  assumes "build_action st = ''swipe''" and "postSelection_build st bounds = (st', Some req)"
  shows "map_of (req_body req) ''dx'' = Some (JNum (num_or (parseInt (str_or (dx_value st) ''0'')) 0))
       \<and> map_of (req_body req) ''dy'' = Some (JNum (num_or (parseInt (str_or (dy_value st) ''0'')) 0))
       \<and> map_of (req_body req) ''direction'' = Some (JStr (toLowerCase (str_or (dir_value st) ''custom'')))
       \<and> map_of (req_body req) ''distance'' = Some (JNum (num_or (parseInt (str_or (dist_value st) ''0'')) 0))"
proof -
  have ne: "build_action st \<noteq> ''back''" using assms(1) by simp
  from assms(2) ne have body: "req_body req = set_field ''bounds'' (JStr bounds)
      (build_swipe st (build_text st (build_capture st (build_base st))))"
    by (auto simp: postSelection_build_def Let_def split: if_splits)
  show ?thesis
    unfolding body using body_swipe_fields [OF assms(1)] by (simp add: map_of_set_field)
qed

text \<open>Claim C5, witness: a swipe with direction \<open>up\<close>, \<open>dx = 30\<close> and \<open>dy = -40\<close>.\<close>

theorem swipe_payload_carries_dx_dy_witness:
  "map_of [(''action'', JStr ''swipe''), (''durationMs'', JNum 600),
           (''tap'', JBool True), (''waitAfterMs'', JNum 400),
           (''dx'', JNum 30), (''dy'', JNum (- 40)),
           (''direction'', JStr ''up''), (''distance'', JNum 200),
           (''bounds'', JStr ''[10,20][110,70]'')] ''dx'' = Some (JNum 30)
   \<and> map_of [(''action'', JStr ''swipe''), (''durationMs'', JNum 600),
           (''tap'', JBool True), (''waitAfterMs'', JNum 400),
           (''dx'', JNum 30), (''dy'', JNum (- 40)),
           (''direction'', JStr ''up''), (''distance'', JNum 200),
           (''bounds'', JStr ''[10,20][110,70]'')] ''dy'' = Some (JNum (- 40))"
  using swipe_payload_carries_dx_dy [OF build_action_swipe_up swipe_up_build]
  by (simp add: str_or_def num_or_def parseInt_30 parseInt_m40)

text \<open>
  Claim C5, counterexample to "the built request omits dx and dy": action \<open>swipe\<close>,
  direction \<open>up\<close>, distance 200, \<open>dx = 30\<close>, \<open>dy = -40\<close>; the body built holds
  \<open>dx: 30\<close> and \<open>dy: -40\<close> beside \<open>direction: "up"\<close> and \<open>distance: 200\<close>.
\<close>

theorem swipe_direction_counterexample:
  "build_action (panel_markup\<lparr>act_value := ''swipe'', dir_value := ''up'', dx_value := ''30'',
      dy_value := ''-40'', dist_value := ''200''\<rparr>) = ''swipe''
   \<and> snd (postSelection_build (panel_markup\<lparr>act_value := ''swipe'', dir_value := ''up'',
        dx_value := ''30'', dy_value := ''-40'', dist_value := ''200''\<rparr>) ''[10,20][110,70]'') =
      Some \<lparr>req_url = ENDPOINT_DEFAULT,
            req_body = [(''action'', JStr ''swipe''), (''durationMs'', JNum 600),
                        (''tap'', JBool True), (''waitAfterMs'', JNum 400),
                        (''dx'', JNum 30), (''dy'', JNum (- 40)),
                        (''direction'', JStr ''up''), (''distance'', JNum 200),
                        (''bounds'', JStr ''[10,20][110,70]'')]\<rparr>"
  by (simp add: build_action_swipe_up swipe_up_build)

section \<open>The action back\<close>

lemma capture_keys:
  "fst ` set (build_capture st (build_base st))
     \<subseteq> {''action'', ''durationMs'', ''tap'', ''midCapture'', ''midDelayMs'', ''waitAfterMs''}"
  by (auto simp: build_capture_def build_base_def keys_set_field)

text \<open>
  Claim C6. When the action is \<open>back\<close>, \<^verbatim>\<open>postSelection\<close> builds a request whatever
  \<open>bounds\<close> it is given and whatever the Bounds field holds; the body has neither a
  \<open>bounds\<close> nor an \<open>xpath\<close> key; the Send button does not test the field, and a click
  with auto-send on does not look for a rectangle.
\<close>

theorem back_needs_no_rectangle:
  assumes "build_action st = ''back''"
  shows "postSelection_build st bounds =
           (st\<lparr>status_textContent := [Phrase Sending]\<rparr>,
            Some \<lparr>req_url = str_or (ep_value st) ENDPOINT_DEFAULT,
                  req_body = build_capture st (build_base st)\<rparr>)
       \<and> ''bounds'' \<notin> fst ` set (build_capture st (build_base st))
       \<and> ''xpath'' \<notin> fst ` set (build_capture st (build_base st))
       \<and> send_onclick st = postSelection_build st (trim (bd_value st))
       \<and> (auto_checked st \<longrightarrow> sendCurrentSelection pg st = postSelection_build st [])"
proof -
  have 1: "postSelection_build st bounds =
           (st\<lparr>status_textContent := [Phrase Sending]\<rparr>,
            Some \<lparr>req_url = str_or (ep_value st) ENDPOINT_DEFAULT,
                  req_body = build_capture st (build_base st)\<rparr>)"
    using assms by (simp add: postSelection_build_def Let_def build_swipe_def build_text_def)
  have 2: "''bounds'' \<notin> fst ` set (build_capture st (build_base st))"
    using capture_keys [of st] by auto
  have 3: "''xpath'' \<notin> fst ` set (build_capture st (build_base st))"
    using capture_keys [of st] by auto
  have act: "toLowerCase (str_or (act_value st) ''short-click'') = ''back''"
    using assms by (simp add: build_action_def)
  have 4: "send_onclick st = postSelection_build st (trim (bd_value st))"
    using act by (simp add: send_onclick_def str_or_def)
  have 5: "sendCurrentSelection pg st = postSelection_build st []" if "auto_checked st"
    using act that by (simp add: sendCurrentSelection_def)
  from 1 2 3 4 5 show ?thesis by blast
qed

lemma build_action_back:
  "build_action (panel_markup\<lparr>act_value := ''back'', bd_value := ''[10,20][110,70]''\<rparr>) = ''back''"
  by (simp add: build_action_def str_or_def lower_back)

text \<open>Claim C6, witness: action \<open>back\<close> with a rectangle in the Bounds field, on a page
  with nothing selected.\<close>

theorem back_needs_no_rectangle_witness:
  "sendCurrentSelection empty_page (panel_markup\<lparr>act_value := ''back'', bd_value := ''[10,20][110,70]''\<rparr>)
     = (panel_markup\<lparr>act_value := ''back'', bd_value := ''[10,20][110,70]'',
          status_textContent := [Phrase Sending]\<rparr>,
        Some \<lparr>req_url = ENDPOINT_DEFAULT,
              req_body = [(''action'', JStr ''back''), (''durationMs'', JNum 600),
                          (''tap'', JBool True), (''waitAfterMs'', JNum 400)]\<rparr>)
   \<and> send_onclick (panel_markup\<lparr>act_value := ''back'', bd_value := ''[10,20][110,70]''\<rparr>)
     = (panel_markup\<lparr>act_value := ''back'', bd_value := ''[10,20][110,70]'',
          status_textContent := [Phrase Sending]\<rparr>,
        Some \<lparr>req_url = ENDPOINT_DEFAULT,
              req_body = [(''action'', JStr ''back''), (''durationMs'', JNum 600),
                          (''tap'', JBool True), (''waitAfterMs'', JNum 400)]\<rparr>)"
proof -
  let ?st = "panel_markup\<lparr>act_value := ''back'', bd_value := ''[10,20][110,70]''\<rparr>"
  have auto: "auto_checked ?st" by (simp add: panel_markup_def)
  have body: "build_capture ?st (build_base ?st) =
      [(''action'', JStr ''back''), (''durationMs'', JNum 600),
       (''tap'', JBool True), (''waitAfterMs'', JNum 400)]"
    by (simp add: build_defs str_or_def num_or_def lower_back parseInt_600 parseInt_400
        panel_markup_def)
  have url: "str_or (ep_value ?st) ENDPOINT_DEFAULT = ENDPOINT_DEFAULT"
    by (simp add: panel_markup_def str_or_def)
  from back_needs_no_rectangle [OF build_action_back, of "[]" empty_page]
    back_needs_no_rectangle [OF build_action_back, of "trim (bd_value ?st)" empty_page]
  show ?thesis using auto unfolding body url by simp
qed

section \<open>Clicks on the panel and on the refresh control\<close>

text \<open>
  Claim C7. A click whose target is inside the panel, or is the refresh button that
  \<^verbatim>\<open>findRefreshButton\<close> locates or inside it, leaves the panel as it is and leads to no
  request, trusted or not, whatever the panel fields hold.
\<close>

theorem ignored_clicks_never_send:
  assumes "target e = Some t"
    and "contains (panel_ref pg) t
         \<or> (\<exists>r. findRefreshButton (document pg) = Some r \<and> (t = r \<or> contains r t))"
  shows "click_listener pg st e = (st, None)"
proof -
  have "shouldIgnoreClick pg e"
    using assms by (auto simp: shouldIgnoreClick_def)
  then show ?thesis by (simp add: click_listener_def)
qed

lemma findRefreshButton_demo: "findRefreshButton (document demo_page) = Some [0, 0, 0]"
  by (simp add: demo_page_def demo_document_def findRefreshButton_def querySelector_def
      matches_def sel_refresh_icon_def has_class_def has_tag_def closest_def)

text \<open>Claim C7, witness: on the small host page, a click on a button of the panel, a
  click on the refresh icon, and the scheduler's own click on the refresh button.\<close>

theorem ignored_clicks_never_send_witness:
  "click_listener demo_page panel_markup \<lparr>target = Some [0, 2, 0], isTrusted = True\<rparr>
     = (panel_markup, None)
   \<and> click_listener demo_page panel_markup \<lparr>target = Some [0, 0, 0, 0], isTrusted = True\<rparr>
     = (panel_markup, None)
   \<and> click_listener demo_page panel_markup \<lparr>target = Some [0, 0, 0], isTrusted = False\<rparr>
     = (panel_markup, None)"
proof -
  have p: "contains (panel_ref demo_page) [0, 2, 0]"
    by (simp add: contains_def demo_page_def)
  have i: "contains [0, 0, 0] [0, 0, 0, 0]" by (simp add: contains_def)
  from ignored_clicks_never_send [of "\<lparr>target = Some [0, 2, 0], isTrusted = True\<rparr>" "[0, 2, 0]"
      demo_page panel_markup]
    ignored_clicks_never_send [of "\<lparr>target = Some [0, 0, 0, 0], isTrusted = True\<rparr>"
      "[0, 0, 0, 0]" demo_page panel_markup]
    ignored_clicks_never_send [of "\<lparr>target = Some [0, 0, 0], isTrusted = False\<rparr>"
      "[0, 0, 0]" demo_page panel_markup]
  show ?thesis using p i findRefreshButton_demo by simp
qed

section \<open>The stored configuration\<close>

lemma restoreCfg_mid_75:
  assumes "cfg \<noteq> JNull"
    and "js_get cfg ''capMode'' = JStr ''mid''"
    and "js_get cfg ''midDelayMs'' = JNum 75"
  shows "capMode_value (restoreCfg (Some (Json cfg)) st) = ''mid''
       \<and> midDelay_value (restoreCfg (Some (Json cfg)) st) = ''75''"
proof -
  have sel: "select_assign capMode_options ''mid'' = ''mid''"
    by (simp add: select_assign_def capMode_options_def)
  show ?thesis
    using assms by (simp add: restoreCfg_def parse_cfg_def Let_def sel int_str_75 split: jsval.splits)
qed

lemma load_capture_fields:
  "capMode_value (load sto pg) = capMode_value (restoreCfg sto panel_markup)
   \<and> midDelay_value (load sto pg) = midDelay_value (restoreCfg sto panel_markup)
   \<and> midDelay_display (load sto pg)
       = (if str_or (capMode_value (restoreCfg sto panel_markup)) ''post'' = ''mid'' then [] else ''none'')
   \<and> wait_display (load sto pg)
       = (if str_or (capMode_value (restoreCfg sto panel_markup)) ''post'' = ''mid'' then ''none'' else [])
   \<and> waitLabel_display (load sto pg)
       = (if str_or (capMode_value (restoreCfg sto panel_markup)) ''post'' = ''mid'' then ''none'' else [])"
  by (simp add: load_def updateExtraFields_def updateCaptureUI_def Let_def split: option.splits)

lemma saved_mid_75:
  assumes "sto \<noteq> Some Malformed"
  shows "\<exists>a. snd (midDelay_change (st'\<lparr>midDelay_value := ''75''\<rparr>,
                  snd (capMode_change (st\<lparr>capMode_value := ''mid''\<rparr>, sto))))
    = Some (Json (JObj (object_assign (object_assign a [(''capMode'', JStr ''mid'')])
                          [(''midDelayMs'', JNum 75)])))"
proof -
  have "\<exists>cfg. parse_cfg sto = Some cfg"
  proof (cases sto)
    case None
    then show ?thesis by (simp add: parse_cfg_def)
  next
    case (Some i)
    with assms show ?thesis by (cases i) (simp_all add: parse_cfg_def)
  qed
  then obtain cfg where cfg: "parse_cfg sto = Some cfg" by blast
  have 1: "snd (capMode_change (st\<lparr>capMode_value := ''mid''\<rparr>, sto))
      = Some (Json (JObj (object_assign (own_properties cfg) [(''capMode'', JStr ''mid'')])))"
    by (simp add: capMode_change_def saveCfg_def cfg str_or_def)
  have 2: "snd (midDelay_change (st'\<lparr>midDelay_value := ''75''\<rparr>,
        Some (Json (JObj (object_assign (own_properties cfg) [(''capMode'', JStr ''mid'')])))))
      = Some (Json (JObj (object_assign (object_assign (own_properties cfg) [(''capMode'', JStr ''mid'')])
                          [(''midDelayMs'', JNum 75)])))"
    by (simp add: midDelay_change_def saveCfg_def parse_cfg_def str_or_def num_or_def parseInt_75)
  show ?thesis unfolding 1 2 by blast
qed

text \<open>
  Claim C8. The operator selects capture mode \<open>mid\<close> and enters 75 as the mid delay;
  the two \<open>change\<close> handlers save them. Unless the stored item was text that is not JSON
  (then \<^verbatim>\<open>saveCfg\<close> writes nothing), a fresh load of the script on any page shows capture
  mode \<open>mid\<close>, the mid-delay field holding 75 and visible, and the wait-after field and
  its label hidden.
\<close>

theorem config_round_trip_mid_75:
  assumes "sto \<noteq> Some Malformed"
  shows "(let sto1 = snd (capMode_change (st\<lparr>capMode_value := ''mid''\<rparr>, sto));
              sto2 = snd (midDelay_change (st'\<lparr>midDelay_value := ''75''\<rparr>, sto1));
              fresh = load sto2 pg
          in capMode_value fresh = ''mid'' \<and> midDelay_value fresh = ''75''
             \<and> midDelay_display fresh = [] \<and> wait_display fresh = ''none''
             \<and> waitLabel_display fresh = ''none'')"
proof -
  from saved_mid_75 [OF assms, of st' st] obtain a where
    s: "snd (midDelay_change (st'\<lparr>midDelay_value := ''75''\<rparr>,
                  snd (capMode_change (st\<lparr>capMode_value := ''mid''\<rparr>, sto))))
    = Some (Json (JObj (object_assign (object_assign a [(''capMode'', JStr ''mid'')])
                          [(''midDelayMs'', JNum 75)])))" by blast
  have c: "js_get (JObj (object_assign (object_assign a [(''capMode'', JStr ''mid'')])
                          [(''midDelayMs'', JNum 75)])) ''capMode'' = JStr ''mid''"
    by (rule js_get_kept) simp
  have m: "js_get (JObj (object_assign (object_assign a [(''capMode'', JStr ''mid'')])
                          [(''midDelayMs'', JNum 75)])) ''midDelayMs'' = JNum 75"
    by (rule js_get_saved)
  have nn: "JObj (object_assign (object_assign a [(''capMode'', JStr ''mid'')])
                          [(''midDelayMs'', JNum 75)]) \<noteq> JNull" by simp
  note r = restoreCfg_mid_75 [OF nn c m, of panel_markup]
  show ?thesis
    unfolding Let_def s using r load_capture_fields by (simp add: str_or_def)
qed

text \<open>Claim C8, witness: starting from an empty store.\<close>

theorem config_round_trip_mid_75_witness:
  "midDelay_value (load (snd (midDelay_change (panel_markup\<lparr>midDelay_value := ''75''\<rparr>,
       snd (capMode_change (panel_markup\<lparr>capMode_value := ''mid''\<rparr>, None)))))
     empty_page) = ''75''
   \<and> wait_display (load (snd (midDelay_change (panel_markup\<lparr>midDelay_value := ''75''\<rparr>,
       snd (capMode_change (panel_markup\<lparr>capMode_value := ''mid''\<rparr>, None)))))
     empty_page) = ''none''"
proof -
  have n: "(None :: storage) \<noteq> Some Malformed" by simp
  from config_round_trip_mid_75 [OF n, of panel_markup panel_markup empty_page]
  show ?thesis by (simp add: Let_def)
qed

section \<open>The ticks of the refresh scheduler\<close>

lemma tick_count_step:
  assumes "c + 1 < (n::int)"
  shows "nat (max 1 (n - c)) = Suc (nat (n - (c + 1)))"
    and "nat (max 1 (n - (c + 1))) = nat (n - (c + 1))"
  using assms by (simp_all add: max_def)

lemma clickOnce_ticks:
  "clickOnce doc_at n d c now =
     map (\<lambda>k. (now + k * nat d, findRefreshButton (doc_at (now + k * nat d))))
       [0..<nat (max 1 (n - c))]"
proof (induction doc_at n d c now rule: clickOnce.induct)
  case (1 doc_at n d c now)
  show ?case
  proof (cases "c + 1 < n")
    case True
    define m where "m = nat (n - (c + 1))"
    have m: "nat (max 1 (n - c)) = Suc m" "nat (max 1 (n - (c + 1))) = m"
      using tick_count_step [OF True] by (simp_all add: m_def)
    have "clickOnce doc_at n d c now =
        (now, findRefreshButton (doc_at now)) # clickOnce doc_at n d (c + 1) (now + nat d)"
      using True by (subst clickOnce.simps) simp
    also have "\<dots> = (now, findRefreshButton (doc_at now)) #
        map (\<lambda>k. (now + nat d + k * nat d, findRefreshButton (doc_at (now + nat d + k * nat d)))) [0..<m]"
      using "1.IH" [OF True] unfolding m(2) by simp
    also have "\<dots> = map (\<lambda>k. (now + k * nat d, findRefreshButton (doc_at (now + k * nat d)))) [0..<Suc m]"
      by (simp add: upt_conv_Cons map_Suc_upt [symmetric] add.assoc del: upt_Suc)
    finally show ?thesis unfolding m(1) .
  next
    case False
    then have "nat (max 1 (n - c)) = 1" by simp
    moreover have "clickOnce doc_at n d c now = [(now, findRefreshButton (doc_at now))]"
      using False by (subst clickOnce.simps) simp
    ultimately show ?thesis by simp
  qed
qed

lemma scheduleRefreshClicks_ticks:
  "scheduleRefreshClicks doc_at n d now =
     map (\<lambda>k. (now + (k + 1) * nat d, findRefreshButton (doc_at (now + (k + 1) * nat d))))
       [0..<nat (max 1 n)]"
  by (simp add: scheduleRefreshClicks_def clickOnce_ticks add.assoc)

lemma scheduled_tick_count:
  "length (scheduleRefreshClicks doc_at n d now) = nat (max 1 n)"
  by (simp add: scheduleRefreshClicks_ticks)

lemma scheduled_click_count:
  "length (clicks_of (scheduleRefreshClicks doc_at n d now)) \<le> nat (max 1 n)"
proof -
  have "length (clicks_of ts) \<le> length ts" for ts :: "(nat \<times> node_ref option) list"
    by (induction ts) (auto simp: clicks_of_def split: option.splits)
  from this [of "scheduleRefreshClicks doc_at n d now"] show ?thesis
    by (simp add: scheduled_tick_count)
qed

text \<open>
  Claim C9 at \<open>times = 0\<close>. Entering \<open>-1\<close> as the refresh count and pressing Apply
  sets \<open>REFRESH_TIMES\<close> to 0 (the status line says \<open>times=0\<close>), and the next successful
  send calls \<^verbatim>\<open>scheduleRefreshClicks\<close> with it. The first timer is set before the counter
  is compared, so a schedule with \<open>times = 0\<close> still runs one tick, and on a page that
  has the refresh button it clicks it once.
\<close>

theorem zero_times_fires_one_click:
  "REFRESH_TIMES (applyR_onclick (panel_markup\<lparr>rt_value := ''-1''\<rparr>)) = 0
   \<and> snd (postSelection_resume (applyR_onclick (panel_markup\<lparr>rt_value := ''-1''\<rparr>))
           (Response 200 (Some scenario_response))) = [(0, 500)]
   \<and> scheduleRefreshClicks doc_at 0 delay now
       = [(now + nat delay, findRefreshButton (doc_at (now + nat delay)))]
   \<and> clicks_of (scheduleRefreshClicks (\<lambda>t. demo_document) 0 500 0) = [(500, [0, 0, 0])]"
proof -
  have 1: "REFRESH_TIMES (applyR_onclick (panel_markup\<lparr>rt_value := ''-1''\<rparr>)) = 0"
    by (simp add: applyR_onclick_def Let_def panel_markup_def str_or_def num_or_def parseInt_m1)
  have i: "REFRESH_INTERVAL (applyR_onclick (panel_markup\<lparr>rt_value := ''-1''\<rparr>)) = 500"
    by (simp add: applyR_onclick_def Let_def panel_markup_def str_or_def num_or_def parseInt_500)
  have ok: "truthy scenario_response \<and> truthy (js_get scenario_response ''ok'')"
    by (simp add: scenario_response_def)
  have chain: "snd (postSelection_resume (applyR_onclick (panel_markup\<lparr>rt_value := ''-1''\<rparr>))
           (Response 200 (Some scenario_response))) = [(0, 500)]"
    using ok by (simp add: postSelection_resume_def resp_data_def resp_ok_def 1 i)
  have 2: "scheduleRefreshClicks doc_at 0 delay now
       = [(now + nat delay, findRefreshButton (doc_at (now + nat delay)))]" for doc_at delay now
    by (simp add: scheduleRefreshClicks_ticks)
  have d: "findRefreshButton demo_document = Some [0, 0, 0]"
    using findRefreshButton_demo by (simp add: demo_page_def)
  have 3: "clicks_of (scheduleRefreshClicks (\<lambda>t. demo_document) 0 500 0) = [(500, [0, 0, 0])]"
    unfolding 2 by (simp add: clicks_of_def d)
  from 1 chain 2 3 show ?thesis by blast
qed

section \<open>Stopping turns auto-send off\<close>

text \<open>
  Claim C10, as the script has it. The Stop handler clears the auto-send check box before
  it computes the URL and calls \<^verbatim>\<open>fetch\<close>: the panel it hands over at that point has
  auto-send off, whether or not a request follows. Nothing the script does afterwards
  turns it on again: not the rest of the Stop handler, whatever the answer to the POST,
  nor the completion of a send in flight, nor any other handler. With auto-send off, a
  click reaching the click listener changes nothing and leads to no request. The Send
  button of the panel is not governed by the check box: the request it makes, if any, is
  the same whatever the check box holds.
\<close>

theorem stop_disables_auto_send:
  "\<not> auto_checked (fst (stop_begin resolve st))
   \<and> auto_checked (fst (stop_resume st' r)) = auto_checked st'
   \<and> auto_checked (fst (postSelection_resume st' r)) = auto_checked st'
   \<and> auto_checked (fst (postSelection_build st' b)) = auto_checked st'
   \<and> auto_checked (fst (send_onclick st')) = auto_checked st'
   \<and> auto_checked (fst (click_listener pg st' e)) = auto_checked st'
   \<and> auto_checked (applyR_onclick st') = auto_checked st'
   \<and> auto_checked (updateExtraFields st') = auto_checked st'
   \<and> auto_checked (updateCaptureUI st') = auto_checked st'
   \<and> click_listener pg (st'\<lparr>auto_checked := False\<rparr>) e = (st'\<lparr>auto_checked := False\<rparr>, None)
   \<and> snd (send_onclick (st'\<lparr>auto_checked := flag\<rparr>)) = snd (send_onclick st')"
proof -
  have 1: "\<not> auto_checked (fst (stop_begin resolve st))"
    by (simp add: stop_begin_def Let_def split: sum.splits)
  have 2: "auto_checked (fst (stop_resume st' r)) = auto_checked st'"
    by (simp add: stop_resume_def Let_def split: fetch_result.splits)
  have 3: "auto_checked (fst (postSelection_resume st' r)) = auto_checked st'"
    by (simp add: postSelection_resume_def Let_def split: fetch_result.splits)
  have 4: "auto_checked (fst (postSelection_build s b)) = auto_checked s" for s b
    by (simp add: postSelection_build_def Let_def)
  have 5: "auto_checked (fst (send_onclick st')) = auto_checked st'"
    by (simp add: send_onclick_def Let_def 4)
  have 6: "auto_checked (fst (sendCurrentSelection pg st')) = auto_checked st'"
    by (simp add: sendCurrentSelection_def 4 split: option.splits)
  have 7: "auto_checked (fst (click_listener pg st' e)) = auto_checked st'"
    by (simp add: click_listener_def 6)
  have 8: "auto_checked (applyR_onclick st') = auto_checked st'"
    by (simp add: applyR_onclick_def Let_def)
  have 9: "auto_checked (updateExtraFields st') = auto_checked st'"
    by (simp add: updateExtraFields_def Let_def)
  have 10: "auto_checked (updateCaptureUI st') = auto_checked st'"
    by (simp add: updateCaptureUI_def Let_def)
  have 11: "click_listener pg (st'\<lparr>auto_checked := False\<rparr>) e = (st'\<lparr>auto_checked := False\<rparr>, None)"
    by (simp add: click_listener_def sendCurrentSelection_def)
  have 12: "snd (send_onclick (st'\<lparr>auto_checked := flag\<rparr>)) = snd (send_onclick st')"
    by (simp add: send_onclick_def Let_def postSelection_build_def build_defs)
  from 1 2 3 4 5 7 8 9 10 11 12 show ?thesis by blast
qed

lemma stop_begin_markup:
  "fst (stop_begin (\<lambda>b. Inl []) (panel_markup\<lparr>bd_value := ''[10,20][110,70]''\<rparr>))
     = panel_markup\<lparr>bd_value := ''[10,20][110,70]'', auto_checked := False\<rparr>"
  by (simp add: stop_begin_def Let_def panel_markup_def ENDPOINT_DEFAULT_def str_or_def
      suffix_to_prefix)

text \<open>
  Claim C10, counterexample to "subsequent operator clicks trigger no new sends": the
  Bounds field holds \<open>[10,20][110,70]\<close>, the operator presses Stop and the bridge answers
  200 with \<open>ok\<close>; auto-send is off, and a click on the Send button then sends the
  rectangle.
\<close>

theorem send_button_after_stop_counterexample:
  "\<not> auto_checked (fst (stop_resume
        (fst (stop_begin (\<lambda>b. Inl []) (panel_markup\<lparr>bd_value := ''[10,20][110,70]''\<rparr>)))
        (Response 200 (Some scenario_response))))
   \<and> snd (send_onclick (fst (stop_resume
        (fst (stop_begin (\<lambda>b. Inl []) (panel_markup\<lparr>bd_value := ''[10,20][110,70]''\<rparr>)))
        (Response 200 (Some scenario_response))))) =
      Some \<lparr>req_url = ENDPOINT_DEFAULT,
            req_body = [(''action'', JStr ''short-click''), (''durationMs'', JNum 600),
                        (''tap'', JBool True), (''waitAfterMs'', JNum 400),
                        (''bounds'', JStr ''[10,20][110,70]'')]\<rparr>"
proof -
  have ok: "truthy scenario_response \<and> truthy (js_get scenario_response ''ok'')"
    by (simp add: scenario_response_def)
  have r: "fst (stop_resume
        (fst (stop_begin (\<lambda>b. Inl []) (panel_markup\<lparr>bd_value := ''[10,20][110,70]''\<rparr>)))
        (Response 200 (Some scenario_response)))
      = panel_markup\<lparr>bd_value := ''[10,20][110,70]'', auto_checked := False,
          status_textContent := [Phrase StoppedFinalShot, Lit '' undefined'']\<rparr>"
    unfolding stop_begin_markup using ok
    by (simp add: stop_resume_def resp_data_def resp_ok_def scenario_response_def)
  have s: "snd (send_onclick (panel_markup\<lparr>bd_value := ''[10,20][110,70]'', auto_checked := False,
          status_textContent := [Phrase StoppedFinalShot, Lit '' undefined'']\<rparr>)) =
      Some \<lparr>req_url = ENDPOINT_DEFAULT,
            req_body = [(''action'', JStr ''short-click''), (''durationMs'', JNum 600),
                        (''tap'', JBool True), (''waitAfterMs'', JNum 400),
                        (''bounds'', JStr ''[10,20][110,70]'')]\<rparr>"
    by (simp add: send_onclick_def Let_def postSelection_build_def build_defs str_or_def num_or_def
      lower_short_click parseInt_600 parseInt_400 trim_def isWhite_def test_scenario_rect
      panel_markup_def ENDPOINT_DEFAULT_def)
  show ?thesis unfolding r using s by (simp add: panel_markup_def)
qed

end
